theory Spec2Isabelle
  imports Complex_Main "HOL-Library.Sublist"
begin

section \<open>Python values\<close>

text \<open>
  The analyzer of \<^verbatim>\<open>rev.py\<close> keeps what \<^verbatim>\<open>json.loads\<close> returns and reads it
  back with \<^verbatim>\<open>isinstance\<close>, \<^verbatim>\<open>in\<close>, \<^verbatim>\<open>.get\<close> and slices. A parsed value is one of
  Python's \<^verbatim>\<open>None\<close>, \<^verbatim>\<open>bool\<close>, \<^verbatim>\<open>int\<close>, \<^verbatim>\<open>str\<close>, \<^verbatim>\<open>list\<close> and \<^verbatim>\<open>dict\<close>. A dict
  keeps its insertion order, so it is an association list; its keys are distinct in
  Python, and lookup takes the first binding. Numbers with a fraction or an exponent
  (Python floats) are not represented. A character is a code point below 256.
\<close>

datatype json =
    JNull
  | JBool bool
  | JInt int
  | JStr string
  | JList "json list"
  | JObj "(string \<times> json) list"

text \<open>
  The exceptions the analyzer can raise on such values, and those the writer of the
  spreadsheets can raise on the cells it is given.
\<close>

datatype error = TypeError | AttributeError | IllegalCharacterError | OverflowError | OSError

text \<open>\<^verbatim>\<open>isinstance(v, dict)\<close>, \<^verbatim>\<open>isinstance(v, list)\<close>, \<^verbatim>\<open>isinstance(v, str)\<close>.\<close>

fun is_dict :: "json \<Rightarrow> bool" where
  "is_dict (JObj kvs) = True"
| "is_dict v = False"

fun is_list :: "json \<Rightarrow> bool" where
  "is_list (JList xs) = True"
| "is_list v = False"

fun is_str :: "json \<Rightarrow> bool" where
  "is_str (JStr s) = True"
| "is_str v = False"

text \<open>\<^verbatim>\<open>key in d\<close> and \<^verbatim>\<open>d.get(key, default)\<close> on a dict.\<close>

definition has_key :: "(string \<times> json) list \<Rightarrow> string \<Rightarrow> bool" where
  "has_key d k = (map_of d k \<noteq> None)"

definition dict_get :: "(string \<times> json) list \<Rightarrow> string \<Rightarrow> json \<Rightarrow> json" where
  "dict_get d k dflt = (case map_of d k of None \<Rightarrow> dflt | Some v \<Rightarrow> v)"

text \<open>\<^verbatim>\<open>sep.join(xs)\<close> on strings and \<^verbatim>\<open>s.startswith(p)\<close>.\<close>

fun join :: "string \<Rightarrow> string list \<Rightarrow> string" where
  "join sep [] = []"
| "join sep [x] = x"
| "join sep (x # y # ys) = x @ sep @ join sep (y # ys)"

definition startswith :: "string \<Rightarrow> string \<Rightarrow> bool" where
  "startswith s p = (take (length p) s = p)"

section \<open>The analyzer and its documents\<close>

text \<open>
  A path is the list of its components. \<^verbatim>\<open>file_path.name\<close> is the last one and
  \<^verbatim>\<open>file_path.parent\<close> drops it; the name of the empty path is the empty string.
\<close>

type_synonym path = "string list"

definition path_name :: "path \<Rightarrow> string" where
  "path_name p = (if p = [] then [] else last p)"

definition path_parent :: "path \<Rightarrow> path" where
  "path_parent p = butlast p"

text \<open>
  The dict appended to \<^verbatim>\<open>self.documents\<close>; \<^verbatim>\<open>folder_path\<close> is kept as a path, not
  as the platform's string for it.
\<close>

record document =
  filename :: string
  student_name :: string
  folder_path :: path
  full_text :: string

text \<open>
  The dict returned by \<^verbatim>\<open>extract_answers_from_document\<close>: \<^verbatim>\<open>student_name\<close> and
  \<^verbatim>\<open>answers\<close>, the parsed response, which is a dict whenever the function returns one.
\<close>

record extracted =
  ea_student_name :: string
  answers :: "(string \<times> json) list"

text \<open>
  One value of \<^verbatim>\<open>self.pattern_analysis\<close>. The two Counters are dicts in insertion
  order.
\<close>

record pattern =
  pregunta :: string
  total_respuestas :: nat
  conceptos_frecuentes :: "(json \<times> nat) list"
  puntos_clave_comunes :: "json list"
  distribucion_calidad :: "(json \<times> nat) list"

record analyzer =
  self_folder_path :: path
  documents :: "document list"
  extracted_answers :: "extracted list"
  pattern_analysis :: "(string \<times> pattern) list"
  rubric :: json

text \<open>\<^verbatim>\<open>__init__\<close>.\<close>

definition init :: "path \<Rightarrow> analyzer" where
  "init p = \<lparr>self_folder_path = p, documents = [], extracted_answers = [],
     pattern_analysis = [], rubric = JObj []\<rparr>"

section \<open>Document Loader\<close>

text \<open>
  \<^verbatim>\<open>load_documents\<close>. The files that \<^verbatim>\<open>rglob("*.docx")\<close> yields are given as the list
  \<open>found\<close>, in the order it yields them. Opening a file and reading its paragraphs is
  \<open>reader\<close>: \<open>None\<close> when \<^verbatim>\<open>Document(file_path)\<close> or the paragraph access raises, the
  paragraph texts otherwise. The result is the new state and the paths whose error line
  was printed.
\<close>

definition is_lock :: "path \<Rightarrow> bool" where
  "is_lock f = startswith (path_name f) ''~$''"

definition make_document :: "path \<Rightarrow> string list \<Rightarrow> document" where
  "make_document f paras =
     \<lparr>filename = path_name f,
      student_name = path_name (path_parent f),
      folder_path = path_parent f,
      full_text = join ''\<newline>'' paras\<rparr>"

fun load_loop ::
  "(path \<Rightarrow> string list option) \<Rightarrow> path list \<Rightarrow> document list \<times> path list
     \<Rightarrow> document list \<times> path list" where
  "load_loop reader [] acc = acc"
| "load_loop reader (f # fs) (docs, errs) =
     (case reader f of
        None \<Rightarrow> load_loop reader fs (docs, errs @ [f])
      | Some paras \<Rightarrow> load_loop reader fs (docs @ [make_document f paras], errs))"

definition load_documents ::
  "(path \<Rightarrow> string list option) \<Rightarrow> path list \<Rightarrow> analyzer \<Rightarrow> analyzer \<times> path list" where
  "load_documents reader found st =
     (let docx_files = filter (\<lambda>f. \<not> is_lock f) found;
          (docs, errs) = load_loop reader docx_files (documents st, [])
      in (st\<lparr>documents := docs\<rparr>, errs))"

section \<open>The questions\<close>

text \<open>\<^verbatim>\<open>PREGUNTAS\<close>, with the characters outside ASCII given by their code points.\<close>

definition PREGUNTAS :: "string list" where
  "PREGUNTAS =
    [[CHR 0xBF] @ ''En qu'' @ [CHR 0xE9] @ '' consiste un fondo 130/30 fund? '' @ [CHR 0xBF]
       @ ''Cu'' @ [CHR 0xE1]
       @ ''les son las ventajas y desventajas de estos fondos con respecto a fondos ''
       @ [CHR 0x27] @ ''long-only'' @ [CHR 0x27] @ ''?'',
     [CHR 0xBF] @ ''En qu'' @ [CHR 0xE9] @ '' consiste la estrategia low-vol? '' @ [CHR 0xBF]
       @ ''Qu'' @ [CHR 0xE9] @ '' anomal'' @ [CHR 0xED] @ ''a emp'' @ [CHR 0xED]
       @ ''rica da pie para implementar esta estrategia?'',
     [CHR 0xBF] @ ''Qu'' @ [CHR 0xE9] @ '' argumentos a favor ten'' @ [CHR 0xED]
       @ ''a Martingale para continuar/expandir estrategias 130/30 + low_vol en ese entonces?'']"

text \<open>
  \<^verbatim>\<open>f'pregunta_{q_num}'\<close>. Every loop over the questions is \<^verbatim>\<open>range(1, 4)\<close> or the
  three literal keys, so the number has one digit.
\<close>

definition q_key :: "nat \<Rightarrow> string" where
  "q_key q_num = ''pregunta_'' @ [char_of (48 + q_num)]"

definition question_numbers :: "nat list" where
  "question_numbers = [1, 2, 3]"

section \<open>Counters\<close>

text \<open>
  A \<^verbatim>\<open>Counter\<close> is a dict from keys to counts, in insertion order. A key must be
  hashable (a list or a dict is not: \<^verbatim>\<open>TypeError\<close>), and two keys are the same key
  when Python's \<^verbatim>\<open>==\<close> holds, which among \<^verbatim>\<open>None\<close>, \<^verbatim>\<open>bool\<close>, \<^verbatim>\<open>int\<close> and \<^verbatim>\<open>str\<close> values
  is equality but for \<^verbatim>\<open>True == 1\<close> and \<^verbatim>\<open>False == 0\<close>. The first key seen stays.
\<close>

fun hashable :: "json \<Rightarrow> bool" where
  "hashable (JList xs) = False"
| "hashable (JObj kvs) = False"
| "hashable v = True"

fun hkey :: "json \<Rightarrow> json" where
  "hkey (JBool b) = JInt (if b then 1 else 0)"
| "hkey v = v"

definition key_eq :: "json \<Rightarrow> json \<Rightarrow> bool" where
  "key_eq a b = (hkey a = hkey b)"

text \<open>\<^verbatim>\<open>counter[x] += 1\<close> on a hashable \<open>x\<close>.\<close>

fun counter_add :: "(json \<times> nat) list \<Rightarrow> json \<Rightarrow> (json \<times> nat) list" where
  "counter_add [] x = [(x, 1)]"
| "counter_add ((k, c) # kcs) x =
     (if key_eq k x then (k, Suc c) # kcs else (k, c) # counter_add kcs x)"

text \<open>\<^verbatim>\<open>Counter(xs)\<close>.\<close>

definition Counter :: "json list \<Rightarrow> error + (json \<times> nat) list" where
  "Counter xs = (if list_all hashable xs then Inr (foldl counter_add [] xs) else Inl TypeError)"

text \<open>
  \<^verbatim>\<open>counter.most_common(n)\<close> is \<^verbatim>\<open>heapq.nlargest(n, counter.items(), key=itemgetter(1))\<close>,
  which is \<^verbatim>\<open>sorted(counter.items(), key=itemgetter(1), reverse=True)[:n]\<close>: a stable sort
  by falling count, cut after \<open>n\<close> items.
\<close>

definition most_common :: "nat \<Rightarrow> (json \<times> nat) list \<Rightarrow> (json \<times> nat) list" where
  "most_common n cnt = take n (sort_key (\<lambda>kc. - int (snd kc)) cnt)"

text \<open>\<^verbatim>\<open>d.get(k, 0)\<close> on the dict of a Counter.\<close>

fun counter_get :: "(json \<times> nat) list \<Rightarrow> json \<Rightarrow> nat" where
  "counter_get [] x = 0"
| "counter_get ((k, c) # kcs) x = (if key_eq k x then c else counter_get kcs x)"

section \<open>The language model\<close>

text \<open>
  One example of a high-quality answer, as \<^verbatim>\<open>generate_rubric\<close> collects them.
\<close>

record example =
  ex_pregunta :: nat
  estudiante :: string
  respuesta :: json

text \<open>
  The two requests. The fixed text of a prompt is left out; what varies is kept: for an
  extraction the context string, the student name and the document's text; for the
  rubric, per question its text, the number of answers and the first five frequent
  concepts, and the examples.
\<close>

datatype prompt =
    ExtractPrompt string string string
  | RubricPrompt "(string \<times> nat \<times> (json \<times> nat) list) list" "example list"

text \<open>
  What a request comes to: \<^verbatim>\<open>client.chat.completions.create\<close> raises, or
  \<^verbatim>\<open>json.loads\<close> raises on the content, or it parses to a value. The global \<^verbatim>\<open>client\<close>
  is \<open>None\<close> or such a service.
\<close>

datatype reply = ApiError | NotJson | Parsed json

type_synonym client = "(prompt \<Rightarrow> reply) option"

section \<open>Answer Extractor\<close>

text \<open>Running a step over a list, stopping at the first exception.\<close>

fun try_map :: "('a \<Rightarrow> error + 'b) \<Rightarrow> 'a list \<Rightarrow> error + 'b list" where
  "try_map f [] = Inr []"
| "try_map f (x # xs) =
     (case f x of
        Inl e \<Rightarrow> Inl e
      | Inr y \<Rightarrow> (case try_map f xs of Inl e \<Rightarrow> Inl e | Inr ys \<Rightarrow> Inr (y # ys)))"

text \<open>
  \<^verbatim>\<open>', '.join(xs)\<close> on a list of parsed values: \<^verbatim>\<open>TypeError\<close> unless every item is a
  string.
\<close>

fun strs :: "json list \<Rightarrow> string list option" where
  "strs [] = Some []"
| "strs (JStr s # xs) = map_option ((#) s) (strs xs)"
| "strs (v # xs) = None"

definition join_values :: "string \<Rightarrow> json list \<Rightarrow> error + string" where
  "join_values sep xs = (case strs xs of None \<Rightarrow> Inl TypeError | Some ss \<Rightarrow> Inr (join sep ss))"

text \<open>
  The context of earlier documents (the lines before the prompt is built; they are
  outside the \<^verbatim>\<open>try\<close>). \<^verbatim>\<open>render_answer\<close> is the body of the loop over
  \<^verbatim>\<open>prev['answers'].items()\<close>: one line, or nothing when \<^verbatim>\<open>key_points\<close> is there and is
  neither a non-empty list nor a string.
\<close>

definition placeholder :: string where
  "placeholder = ''[An'' @ [CHR 0xE1] @ ''lisis previo]''"

definition render_answer :: "string \<Rightarrow> json \<Rightarrow> error + string" where
  "render_answer q_num answer =
     (case answer of
        JObj a \<Rightarrow>
          (case map_of a ''key_points'' of
             None \<Rightarrow> Inr (''  Pregunta '' @ q_num @ '': '' @ placeholder @ ''\<newline>'')
           | Some key_points \<Rightarrow>
               (case key_points of
                  JList kps \<Rightarrow>
                    (if kps \<noteq> [] then
                       (case join_values '', '' (take 3 kps) of
                          Inl e \<Rightarrow> Inl e
                        | Inr s \<Rightarrow> Inr (''  Pregunta '' @ q_num @ '': '' @ s @ ''...\<newline>''))
                     else Inr [])
                | JStr s \<Rightarrow> Inr (''  Pregunta '' @ q_num @ '': '' @ take 200 s @ ''...\<newline>'')
                | _ \<Rightarrow> Inr []))
      | _ \<Rightarrow> Inr (''  Pregunta '' @ q_num @ '': '' @ placeholder @ ''\<newline>''))"

definition render_prev :: "extracted \<Rightarrow> error + string" where
  "render_prev prev =
     (case try_map (\<lambda>(q_num, answer). render_answer q_num answer) (answers prev) of
        Inl e \<Rightarrow> Inl e
      | Inr ls \<Rightarrow> Inr (''Documento: '' @ ea_student_name prev @ ''\<newline>'' @ concat ls @ ''\<newline>''))"

text \<open>\<^verbatim>\<open>xs[-3:]\<close>.\<close>

definition last_three :: "'a list \<Rightarrow> 'a list" where
  "last_three xs = drop (length xs - 3) xs"

definition context_header :: string where
  "context_header =
     ''\<newline>\<newline>### CONTEXTO DE DOCUMENTOS ANTERIORES:\<newline>''
     @ ''Has analizado los siguientes documentos previamente:\<newline>\<newline>''"

definition build_context :: "extracted list \<Rightarrow> error + string" where
  "build_context eas =
     (if eas = [] then Inr []
      else (case try_map render_prev (last_three eas) of
              Inl e \<Rightarrow> Inl e
            | Inr blocks \<Rightarrow> Inr (context_header @ concat blocks)))"

text \<open>
  The summary printed for a parsed response (inside the \<^verbatim>\<open>try\<close>): for each of the three
  keys whose value is a dict, the concepts joined (or \<^verbatim>\<open>N/A\<close>), the number of key
  points and the quality.
\<close>

record summary_line =
  sm_pregunta :: string
  sm_conceptos :: string
  sm_puntos_clave :: nat
  sm_calidad :: json

definition summary_of :: "(string \<times> json) list \<Rightarrow> string \<Rightarrow> error + summary_line list" where
  "summary_of result q_num =
     (case map_of result q_num of
        Some (JObj q_data) \<Rightarrow>
          (let conceptos = (case dict_get q_data ''conceptos_mencionados'' (JList []) of
                              JList cs \<Rightarrow> cs | _ \<Rightarrow> []);
               key_points = (case dict_get q_data ''key_points'' (JList []) of
                               JList ks \<Rightarrow> ks | _ \<Rightarrow> [])
           in (case (if conceptos \<noteq> [] then join_values '', '' conceptos else Inr ''N/A'') of
                 Inl e \<Rightarrow> Inl e
               | Inr s \<Rightarrow>
                   Inr [\<lparr>sm_pregunta = q_num, sm_conceptos = s,
                         sm_puntos_clave = length key_points,
                         sm_calidad = dict_get q_data ''calidad_estimada'' (JStr ''N/A'')\<rparr>]))
      | _ \<Rightarrow> Inr [])"

definition print_summary :: "(string \<times> json) list \<Rightarrow> error + summary_line list" where
  "print_summary result =
     (case try_map (summary_of result) (map q_key question_numbers) of
        Inl e \<Rightarrow> Inl e
      | Inr ls \<Rightarrow> Inr (concat ls))"

text \<open>
  \<^verbatim>\<open>extract_answers_from_document\<close>. An exception of the context lines leaves the
  function (\<open>Inl\<close>); everything after them is inside the \<^verbatim>\<open>try\<close>, whose handler returns
  \<^verbatim>\<open>None\<close>. A parsed value that is not a dict has no \<^verbatim>\<open>items\<close>, which the handler
  catches too.
\<close>

definition extract_answers_from_document ::
  "client \<Rightarrow> analyzer \<Rightarrow> document \<Rightarrow> error + extracted option" where
  "extract_answers_from_document cl st doc_data =
     (case build_context (extracted_answers st) of
        Inl e \<Rightarrow> Inl e
      | Inr context \<Rightarrow>
          Inr (case cl of
                 None \<Rightarrow> None
               | Some service \<Rightarrow>
                   (case service (ExtractPrompt context (student_name doc_data)
                                    (full_text doc_data)) of
                      ApiError \<Rightarrow> None
                    | NotJson \<Rightarrow> None
                    | Parsed (JObj result) \<Rightarrow>
                        (case print_summary result of
                           Inl e \<Rightarrow> None
                         | Inr ls \<Rightarrow>
                             Some \<lparr>ea_student_name = student_name doc_data,
                                   answers = result\<rparr>)
                    | Parsed v \<Rightarrow> None)))"

text \<open>\<^verbatim>\<open>analyze_patterns_iteratively\<close>: the loop over \<^verbatim>\<open>self.documents\<close>.\<close>

fun analyze_loop :: "client \<Rightarrow> analyzer \<Rightarrow> document list \<Rightarrow> error + analyzer" where
  "analyze_loop cl st [] = Inr st"
| "analyze_loop cl st (doc # docs) =
     (case extract_answers_from_document cl st doc of
        Inl e \<Rightarrow> Inl e
      | Inr None \<Rightarrow> analyze_loop cl st docs
      | Inr (Some analysis) \<Rightarrow>
          analyze_loop cl (st\<lparr>extracted_answers := extracted_answers st @ [analysis]\<rparr>) docs)"

definition analyze_patterns_iteratively :: "client \<Rightarrow> analyzer \<Rightarrow> error + analyzer" where
  "analyze_patterns_iteratively cl st = analyze_loop cl st (documents st)"

section \<open>Pattern Synthesizer\<close>

text \<open>
  The body of the loop over \<^verbatim>\<open>self.extracted_answers\<close> for one question key. The
  accumulator is \<^verbatim>\<open>all_concepts\<close>, \<^verbatim>\<open>all_key_points\<close> and \<^verbatim>\<open>quality_counts\<close>. Counting a
  quality label that is a list or a dict raises.
\<close>

definition synth_step ::
  "string \<Rightarrow> json list \<times> json list \<times> (json \<times> nat) list \<Rightarrow> extracted
     \<Rightarrow> error + json list \<times> json list \<times> (json \<times> nat) list" where
  "synth_step qk acc doc =
     (case acc of (all_concepts, all_key_points, quality_counts) \<Rightarrow>
        (case map_of (answers doc) qk of
           Some (JObj answer_data) \<Rightarrow>
             (let conceptos = dict_get answer_data ''conceptos_mencionados'' (JList []);
                  all_concepts' = (case conceptos of
                                     JList cs \<Rightarrow> all_concepts @ cs | _ \<Rightarrow> all_concepts);
                  key_points = dict_get answer_data ''key_points'' (JList []);
                  all_key_points' = (case key_points of
                                       JList ks \<Rightarrow> all_key_points @ ks | _ \<Rightarrow> all_key_points);
                  label = dict_get answer_data ''calidad_estimada'' (JStr ''N/A'')
              in if hashable label
                 then Inr (all_concepts', all_key_points', counter_add quality_counts label)
                 else Inl TypeError)
         | _ \<Rightarrow> Inr acc))"

fun synth_loop ::
  "string \<Rightarrow> json list \<times> json list \<times> (json \<times> nat) list \<Rightarrow> extracted list
     \<Rightarrow> error + json list \<times> json list \<times> (json \<times> nat) list" where
  "synth_loop qk acc [] = Inr acc"
| "synth_loop qk acc (doc # docs) =
     (case synth_step qk acc doc of Inl e \<Rightarrow> Inl e | Inr acc' \<Rightarrow> synth_loop qk acc' docs)"

text \<open>What is stored in \<^verbatim>\<open>self.pattern_analysis[q_key]\<close> for one question number.\<close>

definition synth_question :: "extracted list \<Rightarrow> nat \<Rightarrow> error + pattern" where
  "synth_question eas q_num =
     (case synth_loop (q_key q_num) ([], [], []) eas of
        Inl e \<Rightarrow> Inl e
      | Inr (all_concepts, all_key_points, quality_counts) \<Rightarrow>
          (case Counter all_concepts of
             Inl e \<Rightarrow> Inl e
           | Inr concept_freq \<Rightarrow>
               Inr \<lparr>pregunta = PREGUNTAS ! (q_num - 1),
                    total_respuestas = length eas,
                    conceptos_frecuentes = most_common 10 concept_freq,
                    puntos_clave_comunes = all_key_points,
                    distribucion_calidad = quality_counts\<rparr>))"

text \<open>\<^verbatim>\<open>d[k] = v\<close> on a dict: a key that is there keeps its place.\<close>

fun dict_set :: "('k \<times> 'v) list \<Rightarrow> 'k \<Rightarrow> 'v \<Rightarrow> ('k \<times> 'v) list" where
  "dict_set [] k v = [(k, v)]"
| "dict_set ((k', v') # d) k v = (if k' = k then (k, v) # d else (k', v') # dict_set d k v)"

text \<open>
  The line printed for each of the ten most common concepts: the concept, its count and
  \<^verbatim>\<open>(freq / len(self.extracted_answers)) * 100\<close>, here in exact arithmetic.
\<close>

definition percentage :: "nat \<Rightarrow> nat \<Rightarrow> rat" where
  "percentage freq n = (of_nat freq / of_nat n) * 100"

definition concept_lines :: "analyzer \<Rightarrow> pattern \<Rightarrow> (json \<times> nat \<times> rat) list" where
  "concept_lines st p =
     map (\<lambda>(concept, freq). (concept, freq, percentage freq (length (extracted_answers st))))
       (conceptos_frecuentes p)"

text \<open>\<^verbatim>\<open>synthesize_patterns\<close>: the loop over \<^verbatim>\<open>range(1, 4)\<close>.\<close>

fun synth_questions :: "analyzer \<Rightarrow> nat list \<Rightarrow> error + analyzer" where
  "synth_questions st [] = Inr st"
| "synth_questions st (q_num # qs) =
     (case synth_question (extracted_answers st) q_num of
        Inl e \<Rightarrow> Inl e
      | Inr p \<Rightarrow>
          synth_questions
            (st\<lparr>pattern_analysis := dict_set (pattern_analysis st) (q_key q_num) p\<rparr>) qs)"

definition synthesize_patterns :: "analyzer \<Rightarrow> error + analyzer" where
  "synthesize_patterns st = synth_questions st question_numbers"

section \<open>Reading a rubric\<close>

text \<open>
  What the printed summary and the text rendering of the rubric read from
  \<^verbatim>\<open>self.rubric\<close>, which is whatever the response parsed to: \<^verbatim>\<open>key in v\<close>, \<^verbatim>\<open>v[key]\<close>
  after it, \<^verbatim>\<open>for x in v\<close> and the truth value of \<^verbatim>\<open>v\<close>.
\<close>

fun py_in :: "string \<Rightarrow> json \<Rightarrow> error + bool" where
  "py_in k (JObj d) = Inr (has_key d k)"
| "py_in k (JList xs) = Inr (JStr k \<in> set xs)"
| "py_in k (JStr s) = Inr (sublist k s)"
| "py_in k v = Inl TypeError"

fun subscript :: "json \<Rightarrow> string \<Rightarrow> error + json" where
  "subscript (JObj d) k = Inr (dict_get d k JNull)"
| "subscript v k = Inl TypeError"

fun py_iter :: "json \<Rightarrow> error + json list" where
  "py_iter (JList xs) = Inr xs"
| "py_iter (JStr s) = Inr (map (\<lambda>c. JStr [c]) s)"
| "py_iter (JObj d) = Inr (map (\<lambda>kv. JStr (fst kv)) d)"
| "py_iter v = Inl TypeError"

fun truthy :: "json \<Rightarrow> bool" where
  "truthy JNull = False"
| "truthy (JBool b) = b"
| "truthy (JInt i) = (i \<noteq> 0)"
| "truthy (JStr s) = (s \<noteq> [])"
| "truthy (JList xs) = (xs \<noteq> [])"
| "truthy (JObj d) = (d \<noteq> [])"

text \<open>
  The lines of \<^verbatim>\<open>4_pauta_correccion.txt\<close> and of the summary printed for a new rubric,
  each with the values it prints rather than their text.
\<close>

datatype txt_line =
    Titulo
  | Seccion nat string
  | Puntaje json
  | Obligatorios
  | Deseables
  | Elemento json json json
  | Criterios
  | Criterio json
  | Ejemplo json
  | Notas json

definition element_line :: "json \<Rightarrow> error + txt_line" where
  "element_line elem =
     (case elem of
        JObj e \<Rightarrow> Inr (Elemento (dict_get e ''puntos'' (JInt 0))
                           (dict_get e ''concepto'' (JStr ''N/A''))
                           (dict_get e ''descripcion'' (JStr [])))
      | _ \<Rightarrow> Inl AttributeError)"

definition element_lines :: "json \<Rightarrow> error + txt_line list" where
  "element_lines v = (case py_iter v of Inl e \<Rightarrow> Inl e | Inr elems \<Rightarrow> try_map element_line elems)"

section \<open>Rubric Generator\<close>

text \<open>
  \<^verbatim>\<open>x[:500]\<close>: a string or a list is cut; an int, a bool or \<^verbatim>\<open>None\<close> cannot be
  subscripted, and a dict cannot be sliced either.
\<close>

fun slice500 :: "json \<Rightarrow> error + json" where
  "slice500 (JStr s) = Inr (JStr (take 500 s))"
| "slice500 (JList xs) = Inr (JList (take 500 xs))"
| "slice500 v = Inl TypeError"

text \<open>
  The body of the inner loop that collects \<^verbatim>\<open>high_quality_examples\<close> (before the
  \<^verbatim>\<open>try\<close>): \<^verbatim>\<open>.get\<close> is called on the entry whatever it is, and only a dict has it.
\<close>

definition example_of :: "extracted \<Rightarrow> nat \<Rightarrow> error + example list" where
  "example_of doc q_num =
     (case map_of (answers doc) (q_key q_num) of
        None \<Rightarrow> Inr []
      | Some (JObj a) \<Rightarrow>
          (if dict_get a ''calidad_estimada'' JNull = JStr ''alta'' then
             (case slice500 (dict_get a ''respuesta_completa'' (JStr [])) of
                Inl e \<Rightarrow> Inl e
              | Inr r \<Rightarrow>
                  Inr [\<lparr>ex_pregunta = q_num, estudiante = ea_student_name doc, respuesta = r\<rparr>])
           else Inr [])
      | Some v \<Rightarrow> Inl AttributeError)"

definition examples_of_doc :: "extracted \<Rightarrow> error + example list" where
  "examples_of_doc doc =
     (case try_map (example_of doc) question_numbers of
        Inl e \<Rightarrow> Inl e
      | Inr xs \<Rightarrow> Inr (concat xs))"

definition high_quality_examples :: "extracted list \<Rightarrow> error + example list" where
  "high_quality_examples eas =
     (case try_map examples_of_doc eas of Inl e \<Rightarrow> Inl e | Inr xs \<Rightarrow> Inr (concat xs))"

text \<open>
  \<^verbatim>\<open>generate_rubric\<close>. The request carries the first six examples. Without a client,
  or when the request or the parse raises, the state stays as it was. A parsed response
  is stored at once; the summary printed after that may raise, the handler catches it and
  the stored value stays.
\<close>

definition rubric_prompt :: "analyzer \<Rightarrow> example list \<Rightarrow> prompt" where
  "rubric_prompt st exs =
     RubricPrompt
       (map (\<lambda>(qk, p). (pregunta p, total_respuestas p, take 5 (conceptos_frecuentes p)))
          (pattern_analysis st))
       (take 6 exs)"

definition generate_rubric :: "client \<Rightarrow> analyzer \<Rightarrow> error + analyzer" where
  "generate_rubric cl st =
     (case high_quality_examples (extracted_answers st) of
        Inl e \<Rightarrow> Inl e
      | Inr exs \<Rightarrow>
          Inr (case cl of
                 None \<Rightarrow> st
               | Some service \<Rightarrow>
                   (case service (rubric_prompt st exs) of
                      ApiError \<Rightarrow> st
                    | NotJson \<Rightarrow> st
                    | Parsed v \<Rightarrow> st\<lparr>rubric := v\<rparr>)))"





section \<open>Report Exporter\<close>

text \<open>
  A row of \<^verbatim>\<open>1_analisis_patrones.xlsx\<close>. The column of the most frequent concepts
  keeps the first three concepts with their counts, not the text made of them.
\<close>

record pattern_row =
  Pregunta :: string
  Total_Respuestas :: nat
  Conceptos_Mas_Frecuentes :: "(json \<times> nat) list"
  Calidad_Alta :: nat
  Calidad_Media :: nat
  Calidad_Baja :: nat

definition pattern_row_of :: "pattern \<Rightarrow> pattern_row" where
  "pattern_row_of p =
     \<lparr>Pregunta = take 50 (pregunta p) @ ''...'',
      Total_Respuestas = total_respuestas p,
      Conceptos_Mas_Frecuentes = take 3 (conceptos_frecuentes p),
      Calidad_Alta = counter_get (distribucion_calidad p) (JStr ''alta''),
      Calidad_Media = counter_get (distribucion_calidad p) (JStr ''media''),
      Calidad_Baja = counter_get (distribucion_calidad p) (JStr ''baja'')\<rparr>"

text \<open>A row of \<^verbatim>\<open>2_analisis_por_estudiante.xlsx\<close>; \<open>Pregunta_Num\<close> is its column \<^verbatim>\<open>Pregunta\<close>.\<close>

record student_row =
  Estudiante :: string
  Pregunta_Num :: nat
  Conceptos_Mencionados :: string
  Num_Puntos_Clave :: nat
  Longitud :: json
  Calidad :: json

definition student_row_of :: "extracted \<Rightarrow> nat \<Rightarrow> error + student_row list" where
  "student_row_of doc q_num =
     (case map_of (answers doc) (q_key q_num) of
        Some (JObj answer) \<Rightarrow>
          (let conceptos = (case dict_get answer ''conceptos_mencionados'' (JList []) of
                              JList cs \<Rightarrow> cs | _ \<Rightarrow> []);
               key_points = (case dict_get answer ''key_points'' (JList []) of
                               JList ks \<Rightarrow> ks | _ \<Rightarrow> [])
           in (case join_values '', '' conceptos of
                 Inl e \<Rightarrow> Inl e
               | Inr s \<Rightarrow>
                   Inr [\<lparr>Estudiante = ea_student_name doc, Pregunta_Num = q_num,
                         Conceptos_Mencionados = s,
                         Num_Puntos_Clave = length key_points,
                         Longitud = dict_get answer ''longitud_caracteres'' (JInt 0),
                         Calidad = dict_get answer ''calidad_estimada'' (JStr ''N/A'')\<rparr>]))
      | _ \<Rightarrow> Inr [])"

definition student_rows_of_doc :: "extracted \<Rightarrow> error + student_row list" where
  "student_rows_of_doc doc =
     (case try_map (student_row_of doc) question_numbers of
        Inl e \<Rightarrow> Inl e
      | Inr rows \<Rightarrow> Inr (concat rows))"

definition student_details :: "extracted list \<Rightarrow> error + student_row list" where
  "student_details eas =
     (case try_map student_rows_of_doc eas of Inl e \<Rightarrow> Inl e | Inr rows \<Rightarrow> Inr (concat rows))"

definition rubric_data_lines :: "nat \<Rightarrow> json \<Rightarrow> error + txt_line list" where
  "rubric_data_lines q_num rubric_data =
     (case rubric_data of
        JObj rd \<Rightarrow>
          (case element_lines (dict_get rd ''elementos_obligatorios'' (JList [])) of
             Inl e \<Rightarrow> Inl e
           | Inr obligatorios \<Rightarrow>
               (case (if truthy (dict_get rd ''elementos_deseables'' JNull)
                      then (case element_lines (dict_get rd ''elementos_deseables'' (JList [])) of
                              Inl e \<Rightarrow> Inl e | Inr ls \<Rightarrow> Inr (Deseables # ls))
                      else Inr []) of
                  Inl e \<Rightarrow> Inl e
                | Inr deseables \<Rightarrow>
                    (case py_iter (dict_get rd ''criterios_calidad'' (JList [])) of
                       Inl e \<Rightarrow> Inl e
                     | Inr criterios \<Rightarrow>
                         Inr ([Seccion q_num (PREGUNTAS ! (q_num - 1)),
                               Puntaje (dict_get rd ''puntaje_total'' (JStr ''N/A'')),
                               Obligatorios]
                              @ obligatorios @ deseables
                              @ [Criterios] @ map Criterio criterios
                              @ [Ejemplo (dict_get rd ''ejemplo_respuesta_ideal''
                                            (JStr ''N/A''))]))))
      | _ \<Rightarrow> Inl AttributeError)"

definition rubric_section :: "json \<Rightarrow> nat \<Rightarrow> error + txt_line list" where
  "rubric_section r q_num =
     (case py_in (q_key q_num) r of
        Inl e \<Rightarrow> Inl e
      | Inr False \<Rightarrow> Inr []
      | Inr True \<Rightarrow>
          (case subscript r (q_key q_num) of
             Inl e \<Rightarrow> Inl e
           | Inr rubric_data \<Rightarrow> rubric_data_lines q_num rubric_data))"

definition rubric_text :: "json \<Rightarrow> error + txt_line list" where
  "rubric_text r =
     (case try_map (rubric_section r) question_numbers of
        Inl e \<Rightarrow> Inl e
      | Inr sections \<Rightarrow>
          (case py_in ''notas_generales'' r of
             Inl e \<Rightarrow> Inl e
           | Inr False \<Rightarrow> Inr (Titulo # concat sections)
           | Inr True \<Rightarrow>
               (case subscript r ''notas_generales'' of
                  Inl e \<Rightarrow> Inl e
                | Inr notas \<Rightarrow> Inr (Titulo # concat sections @ [Notas notas]))))"

text \<open>
  The two spreadsheets are written by \<^verbatim>\<open>pd.DataFrame(rows).to_excel(file)\<close>, which is not
  part of the analyzer and raises on cells the workbook cannot hold (a control character
  in a string, a number out of range). It is a parameter: \<open>None\<close> when the sheet is
  written, the exception otherwise.
\<close>

datatype sheet = Patrones "pattern_row list" | Estudiantes "student_row list"

type_synonym to_excel = "sheet \<Rightarrow> error option"

text \<open>
  \<^verbatim>\<open>export_reports\<close>: the four files in the order they are written, none of them inside
  a \<^verbatim>\<open>try\<close>. The third is \<^verbatim>\<open>json.dump\<close> of the rubric, kept as the value it serialises.
\<close>

record reports =
  analisis_patrones :: "pattern_row list"
  analisis_por_estudiante :: "student_row list"
  pauta_correccion_json :: json
  pauta_correccion_txt :: "txt_line list"

definition export_reports :: "to_excel \<Rightarrow> analyzer \<Rightarrow> error + reports" where
  "export_reports xl st =
     (let pattern_report = map (\<lambda>(qk, p). pattern_row_of p) (pattern_analysis st)
      in (case xl (Patrones pattern_report) of
            Some e \<Rightarrow> Inl e
          | None \<Rightarrow>
              (case student_details (extracted_answers st) of
                 Inl e \<Rightarrow> Inl e
               | Inr rows \<Rightarrow>
                   (case xl (Estudiantes rows) of
                      Some e \<Rightarrow> Inl e
                    | None \<Rightarrow>
                        (case rubric_text (rubric st) of
                           Inl e \<Rightarrow> Inl e
                         | Inr ls \<Rightarrow>
                             Inr \<lparr>analisis_patrones = pattern_report,
                                  analisis_por_estudiante = rows,
                                  pauta_correccion_json = rubric st,
                                  pauta_correccion_txt = ls\<rparr>)))))"

section \<open>The run\<close>

text \<open>
  The steps of \<^verbatim>\<open>main\<close> after the documents are loaded: extraction, synthesis, the
  rubric and the export, with the one global client and the writer of the spreadsheets.
\<close>

definition run_pipeline :: "to_excel \<Rightarrow> client \<Rightarrow> analyzer \<Rightarrow> error + reports" where
  "run_pipeline xl cl st =
     (case analyze_patterns_iteratively cl st of
        Inl e \<Rightarrow> Inl e
      | Inr st1 \<Rightarrow>
          (case synthesize_patterns st1 of
             Inl e \<Rightarrow> Inl e
           | Inr st2 \<Rightarrow>
               (case generate_rubric cl st2 of
                  Inl e \<Rightarrow> Inl e
                | Inr st3 \<Rightarrow> export_reports xl st3)))"

section \<open>Notions for the properties of the synthesizer\<close>

text \<open>
  How often a concept occurs in a list of concepts, counted as the Counter does, and
  the position at which it occurs first (the length of the list when it does not occur).
\<close>

definition freq :: "json \<Rightarrow> json list \<Rightarrow> nat" where
  "freq c xs = length (filter (key_eq c) xs)"

fun first_pos :: "json \<Rightarrow> json list \<Rightarrow> nat" where
  "first_pos c [] = 0"
| "first_pos c (x # xs) = (if key_eq x c then 0 else Suc (first_pos c xs))"

text \<open>
  The analysis a document has for a question key, when it is there and is a dict, the
  lists in it, and what the synthesizer collects from all documents for a question key:
  the concepts, the key points and the quality labels.
\<close>

definition answer_of :: "extracted \<Rightarrow> string \<Rightarrow> (string \<times> json) list option" where
  "answer_of doc qk = (case map_of (answers doc) qk of Some (JObj a) \<Rightarrow> Some a | _ \<Rightarrow> None)"

definition list_field :: "(string \<times> json) list \<Rightarrow> string \<Rightarrow> json list" where
  "list_field a k = (case dict_get a k (JList []) of JList xs \<Rightarrow> xs | _ \<Rightarrow> [])"

definition all_concepts :: "extracted list \<Rightarrow> string \<Rightarrow> json list" where
  "all_concepts eas qk =
     concat (map (\<lambda>doc. case answer_of doc qk of
                           None \<Rightarrow> [] | Some a \<Rightarrow> list_field a ''conceptos_mencionados'') eas)"

definition all_key_points :: "extracted list \<Rightarrow> string \<Rightarrow> json list" where
  "all_key_points eas qk =
     concat (map (\<lambda>doc. case answer_of doc qk of
                           None \<Rightarrow> [] | Some a \<Rightarrow> list_field a ''key_points'') eas)"

definition labels_of :: "extracted list \<Rightarrow> string \<Rightarrow> json list" where
  "labels_of eas qk =
     concat (map (\<lambda>doc. case answer_of doc qk of
                           None \<Rightarrow> []
                         | Some a \<Rightarrow> [dict_get a ''calidad_estimada'' (JStr ''N/A'')]) eas)"

text \<open>The labels and concepts the Counters are given can all be keys.\<close>

definition synthesizable :: "extracted list \<Rightarrow> bool" where
  "synthesizable eas =
     list_all (\<lambda>q. list_all hashable (labels_of eas (q_key q))
                  \<and> list_all hashable (all_concepts eas (q_key q))) question_numbers"

text \<open>
  A ranking of a list of concepts, in the words of the specification: every concept
  that occurs is listed once with the number of its occurrences, the counts fall along the
  ranking, and of two concepts with the same count the one seen first comes first.
\<close>

definition ranked_by_frequency :: "json list \<Rightarrow> (json \<times> nat) list \<Rightarrow> bool" where
  "ranked_by_frequency concepts ranking =
     (distinct (map (\<lambda>kc. hkey (fst kc)) ranking)
      \<and> hkey ` fst ` set ranking = hkey ` set concepts
      \<and> fst ` set ranking \<subseteq> set concepts
      \<and> list_all (\<lambda>kc. snd kc = freq (fst kc) concepts) ranking
      \<and> sorted_wrt (\<lambda>a b. snd b \<le> snd a) ranking
      \<and> sorted_wrt (\<lambda>a b. snd a = snd b \<longrightarrow>
            first_pos (fst a) concepts < first_pos (fst b) concepts) ranking)"

text \<open>Two extracted answers to try the synthesizer on.\<close>

definition demo_answers :: "extracted list" where
  "demo_answers =
     [\<lparr>ea_student_name = ''ana'',
       answers = [(''pregunta_1'', JObj [(''conceptos_mencionados'', JList [JStr ''a'', JStr ''b'']),
                                        (''key_points'', JList [JStr ''k1'']),
                                        (''calidad_estimada'', JStr ''alta'')])]\<rparr>,
      \<lparr>ea_student_name = ''luis'',
       answers = [(''pregunta_1'', JObj [(''conceptos_mencionados'', JList [JStr ''c'', JStr ''b'']),
                                        (''key_points'', JList [JStr ''k2'', JStr ''k3'']),
                                        (''calidad_estimada'', JStr ''media'')])]\<rparr>]"

section \<open>Notions for the counts of the synthesizer\<close>

text \<open>
  The documents that have an analysis for a question key, the concepts one document
  lists for it, the number of documents that list a concept, and whether no document
  lists a concept twice.
\<close>

definition answers_to :: "extracted list \<Rightarrow> string \<Rightarrow> extracted list" where
  "answers_to eas qk = filter (\<lambda>doc. answer_of doc qk \<noteq> None) eas"

definition concepts_of :: "extracted \<Rightarrow> string \<Rightarrow> json list" where
  "concepts_of doc qk =
     (case answer_of doc qk of None \<Rightarrow> [] | Some a \<Rightarrow> list_field a ''conceptos_mencionados'')"

definition mentions :: "json \<Rightarrow> extracted list \<Rightarrow> string \<Rightarrow> nat" where
  "mentions c eas qk = length (filter (\<lambda>doc. list_ex (key_eq c) (concepts_of doc qk)) eas)"

definition no_repeats :: "extracted list \<Rightarrow> string \<Rightarrow> bool" where
  "no_repeats eas qk = list_all (\<lambda>doc. distinct (map hkey (concepts_of doc qk))) eas"

text \<open>
  One document answers the first question and lists a concept twice; another has no
  answer to it.
\<close>

definition repeated_answers :: "extracted list" where
  "repeated_answers =
     [\<lparr>ea_student_name = ''ana'',
       answers = [(''pregunta_1'',
                   JObj [(''conceptos_mencionados'', JList [JStr ''x'', JStr ''x''])])]\<rparr>,
      \<lparr>ea_student_name = ''luis'', answers = []\<rparr>]"

text \<open>
  Three extracted answers: one rated high, one with no quality label, one with no answer
  to the first question.
\<close>

definition mixed_answers :: "extracted list" where
  "mixed_answers =
     [\<lparr>ea_student_name = ''ana'',
       answers = [(''pregunta_1'', JObj [(''calidad_estimada'', JStr ''alta'')])]\<rparr>,
      \<lparr>ea_student_name = ''luis'',
       answers = [(''pregunta_1'', JObj [(''respuesta_completa'', JStr ''un fondo'')])]\<rparr>,
      \<lparr>ea_student_name = ''eva'', answers = []\<rparr>]"

section \<open>Documents and services to run the extractor on\<close>

text \<open>
  Three documents and a service that returns no JSON for the second one and an empty
  object for the others.
\<close>

definition three_documents :: "document list" where
  "three_documents =
     [\<lparr>filename = ''a.docx'', student_name = ''ana'', folder_path = [''ana''], full_text = ''uno''\<rparr>,
      \<lparr>filename = ''b.docx'', student_name = ''luis'', folder_path = [''luis''], full_text = ''dos''\<rparr>,
      \<lparr>filename = ''c.docx'', student_name = ''eva'', folder_path = [''eva''], full_text = ''tres''\<rparr>]"

definition skipping_service :: "prompt \<Rightarrow> reply" where
  "skipping_service p =
     (case p of
        ExtractPrompt c name text \<Rightarrow> if name = ''luis'' then NotJson else Parsed (JObj [])
      | RubricPrompt patterns examples \<Rightarrow> NotJson)"

text \<open>Four documents; the same service returns no JSON for the third.\<close>

definition four_documents :: "document list" where
  "four_documents =
     [\<lparr>filename = ''a.docx'', student_name = ''ana'', folder_path = [''ana''], full_text = ''uno''\<rparr>,
      \<lparr>filename = ''c.docx'', student_name = ''eva'', folder_path = [''eva''], full_text = ''tres''\<rparr>,
      \<lparr>filename = ''b.docx'', student_name = ''luis'', folder_path = [''luis''], full_text = ''dos''\<rparr>,
      \<lparr>filename = ''d.docx'', student_name = ''raul'', folder_path = [''raul''],
        full_text = ''cuatro''\<rparr>]"

section \<open>Notions for the properties of the rubric generator\<close>

text \<open>
  The examples in the words of the specification: the answers rated \<^verbatim>\<open>alta\<close>, taken
  document by document and within a document question by question, each with its text
  cut to 500, and of these the first six.
\<close>

definition high_of :: "extracted \<Rightarrow> nat \<Rightarrow> (string \<times> json) list list" where
  "high_of doc q =
     (case answer_of doc (q_key q) of
        None \<Rightarrow> []
      | Some a \<Rightarrow> if dict_get a ''calidad_estimada'' JNull = JStr ''alta'' then [a] else [])"

fun truncated :: "json \<Rightarrow> json" where
  "truncated (JStr s) = JStr (take 500 s)"
| "truncated (JList xs) = JList (take 500 xs)"
| "truncated v = v"

fun within500 :: "json \<Rightarrow> bool" where
  "within500 (JStr s) = (length s \<le> 500)"
| "within500 (JList xs) = (length xs \<le> 500)"
| "within500 v = False"

definition example_for :: "extracted \<Rightarrow> nat \<Rightarrow> (string \<times> json) list \<Rightarrow> example" where
  "example_for doc q a =
     \<lparr>ex_pregunta = q, estudiante = ea_student_name doc,
      respuesta = truncated (dict_get a ''respuesta_completa'' (JStr []))\<rparr>"

definition high_answers :: "extracted list \<Rightarrow> example list" where
  "high_answers eas =
     concat (map (\<lambda>doc. concat (map (\<lambda>q. map (example_for doc q) (high_of doc q))
                                   question_numbers)) eas)"

text \<open>
  Every entry for one of the three questions is a dict, and the text of one rated
  \<^verbatim>\<open>alta\<close> is a string or a list: the examples can be collected.
\<close>

definition collectable :: "extracted list \<Rightarrow> bool" where
  "collectable eas =
     list_all (\<lambda>doc. list_all (\<lambda>q.
        (case map_of (answers doc) (q_key q) of
           None \<Rightarrow> True
         | Some (JObj a) \<Rightarrow>
             dict_get a ''calidad_estimada'' JNull \<noteq> JStr ''alta''
             \<or> is_str (dict_get a ''respuesta_completa'' (JStr []))
             \<or> is_list (dict_get a ''respuesta_completa'' (JStr []))
         | Some v \<Rightarrow> False)) question_numbers) eas"

text \<open>The examples a request for the rubric carries.\<close>

fun prompt_examples :: "prompt \<Rightarrow> example list" where
  "prompt_examples (RubricPrompt patterns examples) = examples"
| "prompt_examples (ExtractPrompt c n t) = []"

text \<open>
  Three documents with the three questions rated \<^verbatim>\<open>alta\<close> in each: nine examples to
  choose from.
\<close>

definition high_entry :: json where
  "high_entry = JObj [(''respuesta_completa'', JStr ''un fondo''), (''calidad_estimada'', JStr ''alta'')]"

definition all_high :: "string \<Rightarrow> extracted" where
  "all_high n =
     \<lparr>ea_student_name = n,
      answers = [(''pregunta_1'', high_entry), (''pregunta_2'', high_entry),
                 (''pregunta_3'', high_entry)]\<rparr>"

text \<open>
  A service whose response to an extraction has a string where the analysis of the first
  question should be, and one document to send it.
\<close>

definition text_service :: "prompt \<Rightarrow> reply" where
  "text_service p =
     (case p of
        ExtractPrompt c n t \<Rightarrow> Parsed (JObj [(''pregunta_1'', JStr ''texto'')])
      | RubricPrompt patterns examples \<Rightarrow> Parsed (JObj []))"

definition one_document :: "document list" where
  "one_document =
     [\<lparr>filename = ''a.docx'', student_name = ''ana'', folder_path = [''ana''], full_text = ''uno''\<rparr>]"

section \<open>Notions for the properties of the export\<close>






definition plain_writer :: to_excel where
  "plain_writer s = None"



section \<open>Notions for the question keys\<close>

text \<open>A line of the rubric text that opens a section does so for one of the three questions.\<close>

fun line_question_ok :: "txt_line \<Rightarrow> bool" where
  "line_question_ok (Seccion q t) = (q \<in> set question_numbers \<and> t = PREGUNTAS ! (q - 1))"
| "line_question_ok l = True"

text \<open>A service whose response to an extraction is keyed by a fourth question.\<close>

definition fourth_service :: "prompt \<Rightarrow> reply" where
  "fourth_service p =
     (case p of
        ExtractPrompt c n t \<Rightarrow> Parsed (JObj [(''pregunta_4'', JObj [])])
      | RubricPrompt patterns examples \<Rightarrow> NotJson)"
section \<open>Properties of the Document Loader\<close>

lemma load_loop_eq:
  "load_loop reader fs (docs, errs) =
     (docs @ map (\<lambda>f. make_document f (the (reader f))) (filter (\<lambda>f. reader f \<noteq> None) fs),
      errs @ filter (\<lambda>f. reader f = None) fs)"
  by (induction fs arbitrary: docs errs) (auto split: option.splits)

lemma length_filter_split:
  "length (filter P xs) = length xs - length (filter (\<lambda>x. \<not> P x) xs)"
  using sum_length_filter_compl [of P xs] by simp

text \<open>
  C7. On a fresh analyzer the loader drops the files whose name begins with \<^verbatim>\<open>~$\<close>,
  makes one document for each remaining file that can be read, in the order the files
  were found, with the name of the file's parent folder as student name, and reports the
  files that cannot be read without stopping: of \<open>N\<close> remaining files with \<open>E\<close> unreadable
  ones it returns \<open>N - E\<close> documents and \<open>E\<close> reports, and \<open>E \<le> N\<close>.
\<close>

theorem load_documents_count:
  "documents (fst (load_documents reader found (init folder))) =
     map (\<lambda>f. make_document f (the (reader f)))
       (filter (\<lambda>f. reader f \<noteq> None) (filter (\<lambda>f. \<not> is_lock f) found))
   \<and> map student_name (documents (fst (load_documents reader found (init folder)))) =
     map (\<lambda>f. path_name (path_parent f))
       (filter (\<lambda>f. reader f \<noteq> None) (filter (\<lambda>f. \<not> is_lock f) found))
   \<and> snd (load_documents reader found (init folder)) =
     filter (\<lambda>f. reader f = None) (filter (\<lambda>f. \<not> is_lock f) found)
   \<and> length (documents (fst (load_documents reader found (init folder)))) =
     length (filter (\<lambda>f. \<not> is_lock f) found)
       - length (filter (\<lambda>f. reader f = None) (filter (\<lambda>f. \<not> is_lock f) found))
   \<and> length (filter (\<lambda>f. reader f = None) (filter (\<lambda>f. \<not> is_lock f) found))
       \<le> length (filter (\<lambda>f. \<not> is_lock f) found)"
proof -
  let ?kept = "filter (\<lambda>f. \<not> is_lock f) found"
  have docs: "documents (fst (load_documents reader found (init folder))) =
      map (\<lambda>f. make_document f (the (reader f))) (filter (\<lambda>f. reader f \<noteq> None) ?kept)"
    by (simp add: load_documents_def load_loop_eq init_def)
  have errs: "snd (load_documents reader found (init folder)) =
      filter (\<lambda>f. reader f = None) ?kept"
    by (simp add: load_documents_def load_loop_eq init_def)
  have names: "map student_name (map (\<lambda>f. make_document f (the (reader f)))
        (filter (\<lambda>f. reader f \<noteq> None) ?kept)) =
      map (\<lambda>f. path_name (path_parent f)) (filter (\<lambda>f. reader f \<noteq> None) ?kept)"
    by (simp add: make_document_def)
  have len: "length (filter (\<lambda>f. reader f \<noteq> None) ?kept) =
      length ?kept - length (filter (\<lambda>f. reader f = None) ?kept)"
    using length_filter_split [of "\<lambda>f. reader f \<noteq> None" ?kept] by simp
  show ?thesis
    using docs errs names len by (simp del: filter_filter)
qed

theorem load_documents_count_witness:
  "map student_name (documents (fst (load_documents
      (\<lambda>f. if f = [''root'', ''ana'', ''bad.docx''] then None else Some [''uno'', ''dos''])
      [[''root'', ''ana'', ''a.docx''], [''root'', ''ana'', ''~$a.docx''],
       [''root'', ''ana'', ''bad.docx''], [''root'', ''luis'', ''b.docx'']]
      (init [''root''])))) = [''ana'', ''luis'']
   \<and> snd (load_documents
      (\<lambda>f. if f = [''root'', ''ana'', ''bad.docx''] then None else Some [''uno'', ''dos''])
      [[''root'', ''ana'', ''a.docx''], [''root'', ''ana'', ''~$a.docx''],
       [''root'', ''ana'', ''bad.docx''], [''root'', ''luis'', ''b.docx'']]
      (init [''root''])) = [[''root'', ''ana'', ''bad.docx'']]"
  using load_documents_count [of
      "\<lambda>f. if f = [''root'', ''ana'', ''bad.docx''] then None else Some [''uno'', ''dos'']"
      "[[''root'', ''ana'', ''a.docx''], [''root'', ''ana'', ''~$a.docx''],
        [''root'', ''ana'', ''bad.docx''], [''root'', ''luis'', ''b.docx'']]"
      "[''root'']"]
  by (simp add: is_lock_def startswith_def path_name_def path_parent_def make_document_def)

section \<open>Properties of the Pattern Synthesizer\<close>

lemma key_eq_refl [simp]: "key_eq a a"
  by (simp add: key_eq_def)

lemma key_eq_sym: "key_eq a b = key_eq b a"
  by (auto simp: key_eq_def)

lemma key_eq_trans: "key_eq a b \<Longrightarrow> key_eq b c \<Longrightarrow> key_eq a c"
  by (simp add: key_eq_def)

lemma counter_get_add:
  "counter_get (counter_add cnt x) y = counter_get cnt y + (if key_eq x y then 1 else 0)"
  by (induction cnt x rule: counter_add.induct) (auto simp: key_eq_def)

lemma counter_get_foldl:
  "counter_get (foldl counter_add cnt xs) y = counter_get cnt y + freq y xs"
  by (induction xs arbitrary: cnt) (auto simp: counter_get_add freq_def key_eq_def)

lemma keys_counter_add:
  "map fst (counter_add cnt x) =
     (if \<exists>k \<in> set (map fst cnt). key_eq k x then map fst cnt else map fst cnt @ [x])"
  by (induction cnt x rule: counter_add.induct) auto

lemma counter_get_zero:
  "(counter_get cnt y = 0) \<Longrightarrow> \<forall>kc \<in> set cnt. 0 < snd kc \<Longrightarrow> \<forall>k \<in> set (map fst cnt). \<not> key_eq k y"
  by (induction cnt y rule: counter_get.induct) (auto split: if_splits)

lemma counter_get_member:
  "distinct (map (\<lambda>kc. hkey (fst kc)) cnt) \<Longrightarrow> (k, c) \<in> set cnt \<Longrightarrow> counter_get cnt k = c"
  by (induction cnt k rule: counter_get.induct) (auto simp: key_eq_def rev_image_eqI)

lemma counter_add_pos:
  "\<forall>kc \<in> set cnt. 0 < snd kc \<Longrightarrow> \<forall>kc \<in> set (counter_add cnt x). 0 < snd kc"
  by (induction cnt x rule: counter_add.induct) auto

lemma hkeys_counter_add:
  "map (\<lambda>kc. hkey (fst kc)) (counter_add cnt x) =
     (if hkey x \<in> set (map (\<lambda>kc. hkey (fst kc)) cnt) then map (\<lambda>kc. hkey (fst kc)) cnt
      else map (\<lambda>kc. hkey (fst kc)) cnt @ [hkey x])"
  by (induction cnt x rule: counter_add.induct) (auto simp: key_eq_def)

lemma counter_add_distinct:
  "distinct (map (\<lambda>kc. hkey (fst kc)) cnt) \<Longrightarrow>
   distinct (map (\<lambda>kc. hkey (fst kc)) (counter_add cnt x))"
  by (simp add: hkeys_counter_add)

lemma foldl_counter_distinct:
  "distinct (map (\<lambda>kc. hkey (fst kc)) cnt) \<Longrightarrow>
   distinct (map (\<lambda>kc. hkey (fst kc)) (foldl counter_add cnt xs))"
  by (induction xs arbitrary: cnt) (auto simp: counter_add_distinct)

lemma hkeys_set_counter_add:
  "(\<lambda>kc. hkey (fst kc)) ` set (counter_add cnt x) =
     insert (hkey x) ((\<lambda>kc. hkey (fst kc)) ` set cnt)"
  using arg_cong [OF hkeys_counter_add, of set cnt x] by (auto split: if_splits)

lemma foldl_counter_hkeys:
  "(\<lambda>kc. hkey (fst kc)) ` set (foldl counter_add cnt xs) =
     (\<lambda>kc. hkey (fst kc)) ` set cnt \<union> hkey ` set xs"
  by (induction xs arbitrary: cnt) (simp_all add: hkeys_set_counter_add)

lemma first_pos_le: "first_pos c xs \<le> length xs"
  by (induction xs) auto

lemma first_pos_less: "hkey c \<in> hkey ` set xs \<Longrightarrow> first_pos c xs < length xs"
  by (induction xs) (auto simp: key_eq_def)

lemma first_pos_absent: "hkey c \<notin> hkey ` set xs \<Longrightarrow> first_pos c xs = length xs"
  by (induction xs) (auto simp: key_eq_def)

lemma first_pos_append:
  "first_pos c (xs @ ys) =
     (if hkey c \<in> hkey ` set xs then first_pos c xs else length xs + first_pos c ys)"
  by (induction xs) (auto simp: key_eq_def)

lemma first_pos_nth: "first_pos c xs < length xs \<Longrightarrow> key_eq (xs ! first_pos c xs) c"
  by (induction xs) (auto split: if_splits)

lemma foldl_snoc: "foldl f a (xs @ [x]) = f (foldl f a xs) x"
  by simp

lemma counter_keys_order:
  "sorted_wrt (\<lambda>a b. first_pos a xs < first_pos b xs) (map fst (foldl counter_add [] xs))"
proof (induction xs rule: rev_induct)
  case Nil
  then show ?case by simp
next
  case (snoc x xs)
  let ?cnt = "foldl counter_add [] xs"
  have hk: "hkey ` set (map fst ?cnt) = hkey ` set xs"
    using foldl_counter_hkeys [of "[]" xs] by (simp add: image_image)
  have old: "first_pos k (xs @ [x]) = first_pos k xs" if "k \<in> set (map fst ?cnt)" for k
    using that hk by (auto simp: first_pos_append)
  have keep: "sorted_wrt (\<lambda>a b. first_pos a (xs @ [x]) < first_pos b (xs @ [x])) (map fst ?cnt)"
    using snoc.IH old by (auto simp: sorted_wrt_iff_nth_less)
  show ?case
  proof (cases "\<exists>k \<in> set (map fst ?cnt). key_eq k x")
    case True
    then show ?thesis using keep by (simp add: keys_counter_add)
  next
    case False
    then have "hkey x \<notin> hkey ` set (map fst ?cnt)"
      by (auto simp: key_eq_def)
    then have "hkey x \<notin> hkey ` set xs"
      unfolding hk .
    then have new: "first_pos x (xs @ [x]) = length xs"
      by (simp add: first_pos_append)
    have "first_pos k (xs @ [x]) < first_pos x (xs @ [x])" if "k \<in> set (map fst ?cnt)" for k
    proof -
      have "hkey k \<in> hkey ` set xs" using that hk by blast
      then show ?thesis using old [OF that] new first_pos_less by simp
    qed
    then show ?thesis using keep False
      by (simp add: keys_counter_add sorted_wrt_append del: set_map)
  qed
qed

lemma counter_keys_subset: "fst ` set (foldl counter_add cnt xs) \<subseteq> fst ` set cnt \<union> set xs"
proof (induction xs arbitrary: cnt)
  case Nil
  then show ?case by simp
next
  case (Cons x xs)
  have "fst ` set (counter_add cnt x) \<subseteq> fst ` set cnt \<union> {x}"
    using arg_cong [OF keys_counter_add, of set cnt x] by (auto split: if_splits)
  moreover have "fst ` set (foldl counter_add (counter_add cnt x) xs)
      \<subseteq> fst ` set (counter_add cnt x) \<union> set xs"
    by (rule Cons)
  ultimately show ?case by simp blast
qed

lemma counter_counts:
  assumes "(k, c) \<in> set (foldl counter_add [] xs)"
  shows "c = freq k xs"
proof -
  have "distinct (map (\<lambda>kc. hkey (fst kc)) (foldl counter_add [] xs))"
    by (rule foldl_counter_distinct) simp
  then have "counter_get (foldl counter_add [] xs) k = c"
    using assms by (rule counter_get_member)
  then show ?thesis by (simp add: counter_get_foldl)
qed

lemma insort_ties:
  assumes "sorted_wrt (\<lambda>a b. f a = f b \<longrightarrow> R a b) ys"
    and "\<forall>y \<in> set ys. R x y"
  shows "sorted_wrt (\<lambda>a b. f a = f b \<longrightarrow> R a b) (insort_key f x ys)"
  using assms by (induction ys) (auto simp: set_insort_key)

lemma sort_key_ties:
  "sorted_wrt R xs \<Longrightarrow> sorted_wrt (\<lambda>a b. f a = f b \<longrightarrow> R a b) (sort_key f xs)"
  by (induction xs) (auto intro: insort_ties)

lemma most_common_desc:
  "sorted_wrt (\<lambda>a b. snd b \<le> snd a) (sort_key (\<lambda>kc. - int (snd kc)) cnt)"
proof -
  have "sorted (map (\<lambda>kc. - int (snd kc)) (sort_key (\<lambda>kc. - int (snd kc)) cnt))"
    by (rule sorted_sort_key)
  then show ?thesis
    by (simp add: sorted_map sorted_wrt_iff_nth_less)
qed

lemma synth_step_eq:
  "synth_step qk (ac, akp, qc) doc =
     (case answer_of doc qk of
        None \<Rightarrow> Inr (ac, akp, qc)
      | Some a \<Rightarrow>
          (if hashable (dict_get a ''calidad_estimada'' (JStr ''N/A''))
           then Inr (ac @ list_field a ''conceptos_mencionados'',
                     akp @ list_field a ''key_points'',
                     counter_add qc (dict_get a ''calidad_estimada'' (JStr ''N/A'')))
           else Inl TypeError))"
  by (simp add: synth_step_def answer_of_def list_field_def Let_def
      split: option.splits json.splits)

lemma synth_loop_eq:
  "synth_loop qk (ac, akp, qc) eas =
     (if list_all hashable (labels_of eas qk)
      then Inr (ac @ all_concepts eas qk, akp @ all_key_points eas qk,
                foldl counter_add qc (labels_of eas qk))
      else Inl TypeError)"
proof (induction eas arbitrary: ac akp qc)
  case Nil
  then show ?case
    by (simp add: labels_of_def all_concepts_def all_key_points_def)
next
  case (Cons doc eas)
  show ?case
  proof (cases "answer_of doc qk")
    case None
    then show ?thesis
      using Cons by (simp add: synth_step_eq labels_of_def all_concepts_def all_key_points_def)
  next
    case (Some a)
    then show ?thesis
      using Cons by (simp add: synth_step_eq labels_of_def all_concepts_def all_key_points_def)
  qed
qed

lemma synth_question_eq:
  "synth_question eas q_num =
     (if list_all hashable (labels_of eas (q_key q_num))
         \<and> list_all hashable (all_concepts eas (q_key q_num))
      then Inr \<lparr>pregunta = PREGUNTAS ! (q_num - 1),
                total_respuestas = length eas,
                conceptos_frecuentes =
                  most_common 10 (foldl counter_add [] (all_concepts eas (q_key q_num))),
                puntos_clave_comunes = all_key_points eas (q_key q_num),
                distribucion_calidad = foldl counter_add [] (labels_of eas (q_key q_num))\<rparr>
      else Inl TypeError)"
  by (simp add: synth_question_def synth_loop_eq Counter_def)

lemma map_of_dict_set:
  "map_of (dict_set d k v) k' = (if k' = k then Some v else map_of d k')"
  by (induction d k v rule: dict_set.induct) auto

lemma keys_dict_set:
  "map fst (dict_set d k v) = (if k \<in> set (map fst d) then map fst d else map fst d @ [k])"
  by (induction d k v rule: dict_set.induct) auto

lemma q_key_1: "q_key (Suc 0) = ''pregunta_1''"
  by code_simp

lemma q_key_2: "q_key 2 = ''pregunta_2''"
  by code_simp

lemma q_key_3: "q_key 3 = ''pregunta_3''"
  by code_simp

lemma synthesize_patterns_eq:
  "synthesize_patterns st =
     (if synthesizable (extracted_answers st)
      then Inr (st\<lparr>pattern_analysis :=
             dict_set (dict_set (dict_set (pattern_analysis st)
               ''pregunta_1'' (projr (synth_question (extracted_answers st) 1)))
               ''pregunta_2'' (projr (synth_question (extracted_answers st) 2)))
               ''pregunta_3'' (projr (synth_question (extracted_answers st) 3))\<rparr>)
      else Inl TypeError)"
  by (simp add: synthesize_patterns_def question_numbers_def synthesizable_def
      synth_question_eq q_key_1 q_key_2 q_key_3)

lemma distinct_map_insort:
  "distinct (map g (insort_key f x ys)) = (g x \<notin> g ` set ys \<and> distinct (map g ys))"
  by (induction ys) (auto simp: set_insort_key)

lemma distinct_map_sort_key: "distinct (map g (sort_key f xs)) = distinct (map g xs)"
  by (induction xs) (simp_all add: distinct_map_insort)

lemma counter_ranked:
  "ranked_by_frequency xs (sort_key (\<lambda>kc. - int (snd kc)) (foldl counter_add [] xs))"
proof -
  let ?cnt = "foldl counter_add [] xs"
  let ?f = "\<lambda>kc :: json \<times> nat. - int (snd kc)"
  let ?r = "sort_key ?f ?cnt"
  have set_r: "set ?r = set ?cnt" by simp
  have "distinct (map (\<lambda>kc. hkey (fst kc)) ?cnt)"
    by (rule foldl_counter_distinct) simp
  then have d: "distinct (map (\<lambda>kc. hkey (fst kc)) ?r)"
    by (simp only: distinct_map_sort_key)
  have h: "hkey ` fst ` set ?r = hkey ` set xs"
    using foldl_counter_hkeys [of "[]" xs] by (simp add: image_image)
  have sub: "fst ` set ?r \<subseteq> set xs"
    using counter_keys_subset [of "[]" xs] by simp
  have c: "list_all (\<lambda>kc. snd kc = freq (fst kc) xs) ?r"
    using counter_counts [of _ _ xs] by (auto simp: list_all_iff)
  have desc: "sorted_wrt (\<lambda>a b. snd b \<le> snd a) ?r"
    by (rule most_common_desc)
  have "sorted_wrt (\<lambda>a b. first_pos (fst a) xs < first_pos (fst b) xs) ?cnt"
    using counter_keys_order [of xs] by (simp add: sorted_wrt_map)
  then have "sorted_wrt (\<lambda>a b. ?f a = ?f b \<longrightarrow> first_pos (fst a) xs < first_pos (fst b) xs) ?r"
    by (rule sort_key_ties)
  then have ties: "sorted_wrt (\<lambda>a b. snd a = snd b \<longrightarrow>
      first_pos (fst a) xs < first_pos (fst b) xs) ?r"
    by (simp add: sorted_wrt_iff_nth_less)
  show ?thesis
    unfolding ranked_by_frequency_def using d h sub c desc ties by blast
qed

text \<open>
  C1. Whenever the synthesizer returns, which it does when no collected concept or
  quality label is a list or a dict, the pattern of each of the three questions holds
  the first ten entries of the ranking of the collected concepts (by falling count of
  exact matches, ties in the order of first occurrence over the documents in sequence),
  and all the key points collected, in that sequence.
\<close>

theorem synthesize_patterns_ranking:
  "(synthesizable (extracted_answers st) \<longrightarrow> (\<exists>st'. synthesize_patterns st = Inr st'))
   \<and> (\<forall>st' q. synthesize_patterns st = Inr st' \<and> q \<in> set question_numbers \<longrightarrow>
        (\<exists>p ranking.
           map_of (pattern_analysis st') (q_key q) = Some p
           \<and> ranked_by_frequency (all_concepts (extracted_answers st) (q_key q)) ranking
           \<and> conceptos_frecuentes p = take 10 ranking
           \<and> puntos_clave_comunes p = all_key_points (extracted_answers st) (q_key q)))"
proof (intro conjI allI impI)
  assume "synthesizable (extracted_answers st)"
  then show "\<exists>st'. synthesize_patterns st = Inr st'"
    by (simp add: synthesize_patterns_eq)
next
  fix st' q
  assume a: "synthesize_patterns st = Inr st' \<and> q \<in> set question_numbers"
  let ?eas = "extracted_answers st"
  have ok: "synthesizable ?eas"
    using a by (simp add: synthesize_patterns_eq split: if_splits)
  then have q_ok: "list_all hashable (labels_of ?eas (q_key q))
      \<and> list_all hashable (all_concepts ?eas (q_key q))"
    using a unfolding synthesizable_def list_all_iff by blast
  have st'_eq: "st' = st\<lparr>pattern_analysis :=
             dict_set (dict_set (dict_set (pattern_analysis st)
               ''pregunta_1'' (projr (synth_question ?eas 1)))
               ''pregunta_2'' (projr (synth_question ?eas 2)))
               ''pregunta_3'' (projr (synth_question ?eas 3))\<rparr>"
    using a ok by (simp add: synthesize_patterns_eq)
  have "q = 1 \<or> q = 2 \<or> q = 3"
    using a by (auto simp: question_numbers_def)
  then have look: "map_of (pattern_analysis st') (q_key q) = Some (projr (synth_question ?eas q))"
    by (elim disjE) (simp_all add: st'_eq map_of_dict_set q_key_1 q_key_2 q_key_3)
  let ?ranking = "sort_key (\<lambda>kc. - int (snd kc))
      (foldl counter_add [] (all_concepts ?eas (q_key q)))"
  have "ranked_by_frequency (all_concepts ?eas (q_key q)) ?ranking"
    by (rule counter_ranked)
  moreover have "conceptos_frecuentes (projr (synth_question ?eas q)) = take 10 ?ranking"
    using q_ok by (simp add: synth_question_eq most_common_def)
  moreover have "puntos_clave_comunes (projr (synth_question ?eas q)) =
      all_key_points ?eas (q_key q)"
    using q_ok by (simp add: synth_question_eq)
  ultimately show "\<exists>p ranking.
           map_of (pattern_analysis st') (q_key q) = Some p
           \<and> ranked_by_frequency (all_concepts (extracted_answers st) (q_key q)) ranking
           \<and> conceptos_frecuentes p = take 10 ranking
           \<and> puntos_clave_comunes p = all_key_points (extracted_answers st) (q_key q)"
    using look by blast
qed

lemma demo_concepts:
  "all_concepts demo_answers ''pregunta_1'' = [JStr ''a'', JStr ''b'', JStr ''c'', JStr ''b'']"
  by (simp add: all_concepts_def demo_answers_def answer_of_def list_field_def dict_get_def)

lemma demo_syn: "synthesizable demo_answers"
  by (simp add: synthesizable_def question_numbers_def q_key_1 q_key_2 q_key_3
      labels_of_def all_concepts_def demo_answers_def answer_of_def list_field_def dict_get_def)

lemma demo_key_points:
  "all_key_points demo_answers ''pregunta_1'' = [JStr ''k1'', JStr ''k2'', JStr ''k3'']"
  by (simp add: all_key_points_def demo_answers_def answer_of_def list_field_def dict_get_def)

lemma demo_ranking:
  "most_common 10 (foldl counter_add [] [JStr ''a'', JStr ''b'', JStr ''c'', JStr ''b'']) =
     [(JStr ''b'', 2), (JStr ''a'', 1), (JStr ''c'', 1)]"
  by (simp add: most_common_def key_eq_def)

theorem synthesize_patterns_ranking_witness:
  "\<exists>st' p. synthesize_patterns ((init [])\<lparr>extracted_answers := demo_answers\<rparr>) = Inr st'
     \<and> map_of (pattern_analysis st') ''pregunta_1'' = Some p
     \<and> conceptos_frecuentes p = [(JStr ''b'', 2), (JStr ''a'', 1), (JStr ''c'', 1)]
     \<and> puntos_clave_comunes p = [JStr ''k1'', JStr ''k2'', JStr ''k3'']"
proof -
  let ?st = "(init [])\<lparr>extracted_answers := demo_answers\<rparr>"
  have s: "synthesizable (extracted_answers ?st)"
    by (simp add: demo_syn)
  have q: "1 \<in> set question_numbers"
    by (simp add: question_numbers_def)
  from synthesize_patterns_ranking [of ?st] s
  obtain st' where st': "synthesize_patterns ?st = Inr st'" by blast
  from synthesize_patterns_ranking [of ?st] st' q
  obtain p and ranking :: "(json \<times> nat) list" where p: "map_of (pattern_analysis st') (q_key 1) = Some p"
    and kp: "puntos_clave_comunes p = all_key_points (extracted_answers ?st) (q_key 1)"
    by blast
  have "map_of (pattern_analysis st') (q_key 1) = Some (projr (synth_question demo_answers 1))"
    using st' s by (auto simp: synthesize_patterns_eq map_of_dict_set q_key_1)
  then have "p = projr (synth_question demo_answers 1)"
    using p by simp
  moreover have "conceptos_frecuentes (projr (synth_question demo_answers 1)) =
      most_common 10 (foldl counter_add [] (all_concepts demo_answers ''pregunta_1''))"
    using demo_syn
    by (simp add: synth_question_eq synthesizable_def question_numbers_def q_key_1)
  ultimately have "conceptos_frecuentes p = [(JStr ''b'', 2), (JStr ''a'', 1), (JStr ''c'', 1)]"
    by (simp only: demo_concepts demo_ranking)
  moreover have "puntos_clave_comunes p = [JStr ''k1'', JStr ''k2'', JStr ''k3'']"
    using kp by (simp add: q_key_1 demo_key_points)
  ultimately show ?thesis
    using st' p by (auto simp: q_key_1)
qed

section \<open>Counts and quality columns\<close>

lemma freq_append: "freq c (xs @ ys) = freq c xs + freq c ys"
  by (simp add: freq_def)

lemma freq_distinct:
  "distinct (map hkey xs) \<Longrightarrow> freq c xs = (if list_ex (key_eq c) xs then 1 else 0)"
  by (induction xs) (auto simp: freq_def key_eq_def list_ex_iff)

lemma all_concepts_Cons:
  "all_concepts (doc # eas) qk = concepts_of doc qk @ all_concepts eas qk"
  by (simp add: all_concepts_def concepts_of_def)

lemma freq_mentions:
  "no_repeats eas qk \<Longrightarrow> freq c (all_concepts eas qk) = mentions c eas qk"
proof (induction eas)
  case Nil
  then show ?case by (simp add: all_concepts_def mentions_def freq_def)
next
  case (Cons doc eas)
  then have "distinct (map hkey (concepts_of doc qk))" and "no_repeats eas qk"
    by (simp_all add: no_repeats_def)
  then show ?case
    using Cons.IH by (simp add: all_concepts_Cons freq_append freq_distinct mentions_def)
qed

lemma take_list_all: "list_all P xs \<Longrightarrow> list_all P (take n xs)"
  by (auto simp: list_all_iff dest: in_set_takeD)

lemma synthesize_patterns_lookup:
  assumes "synthesize_patterns st = Inr st'" and "q \<in> set question_numbers"
  shows "map_of (pattern_analysis st') (q_key q) =
      Some \<lparr>pregunta = PREGUNTAS ! (q - 1),
            total_respuestas = length (extracted_answers st),
            conceptos_frecuentes =
              most_common 10 (foldl counter_add [] (all_concepts (extracted_answers st) (q_key q))),
            puntos_clave_comunes = all_key_points (extracted_answers st) (q_key q),
            distribucion_calidad =
              foldl counter_add [] (labels_of (extracted_answers st) (q_key q))\<rparr>
    \<and> extracted_answers st' = extracted_answers st"
proof -
  let ?eas = "extracted_answers st"
  have ok: "synthesizable ?eas"
    using assms by (simp add: synthesize_patterns_eq split: if_splits)
  then have q_ok: "list_all hashable (labels_of ?eas (q_key q))
      \<and> list_all hashable (all_concepts ?eas (q_key q))"
    using assms unfolding synthesizable_def list_all_iff by blast
  have st'_eq: "st' = st\<lparr>pattern_analysis :=
             dict_set (dict_set (dict_set (pattern_analysis st)
               ''pregunta_1'' (projr (synth_question ?eas 1)))
               ''pregunta_2'' (projr (synth_question ?eas 2)))
               ''pregunta_3'' (projr (synth_question ?eas 3))\<rparr>"
    using assms ok by (simp add: synthesize_patterns_eq)
  have "q = 1 \<or> q = 2 \<or> q = 3"
    using assms by (auto simp: question_numbers_def)
  then have "map_of (pattern_analysis st') (q_key q) = Some (projr (synth_question ?eas q))"
    by (elim disjE) (simp_all add: st'_eq map_of_dict_set q_key_1 q_key_2 q_key_3)
  then show ?thesis
    using q_ok by (simp add: synth_question_eq st'_eq)
qed

lemma counter_counts_all:
  "list_all (\<lambda>kc. snd kc = freq (fst kc) xs) (foldl counter_add [] xs)"
  using counter_counts [of _ _ xs] by (auto simp: list_all_iff)

lemma most_common_list_all: "list_all P cnt \<Longrightarrow> list_all P (most_common n cnt)"
  by (auto simp: most_common_def list_all_iff dest: in_set_takeD)

text \<open>
  C8, as the code has it. For each question the stored total is the number of extracted
  documents, whether or not they answer that question. Each reported concept carries the
  number of its occurrences in the collected concepts, which is the number of answers
  that mention it when no answer lists a concept twice. The percentage printed with it
  is that count over the number of extracted documents, times 100; 6 over 10 gives 60.
\<close>

theorem synthesize_patterns_counts:
  "(\<forall>st' q. synthesize_patterns st = Inr st' \<and> q \<in> set question_numbers \<longrightarrow>
      (\<exists>p. map_of (pattern_analysis st') (q_key q) = Some p
         \<and> total_respuestas p = length (extracted_answers st)
         \<and> list_all (\<lambda>kc. snd kc = freq (fst kc) (all_concepts (extracted_answers st) (q_key q))
               \<and> (no_repeats (extracted_answers st) (q_key q) \<longrightarrow>
                    snd kc = mentions (fst kc) (extracted_answers st) (q_key q)))
             (conceptos_frecuentes p)
         \<and> concept_lines st' p =
             map (\<lambda>kc. (fst kc, snd kc, percentage (snd kc) (length (extracted_answers st))))
               (conceptos_frecuentes p)))
   \<and> percentage 6 10 = 60"
proof (intro conjI allI impI)
  show "percentage 6 10 = 60"
    by (simp add: percentage_def)
next
  fix st' q
  assume a: "synthesize_patterns st = Inr st' \<and> q \<in> set question_numbers"
  let ?eas = "extracted_answers st"
  let ?all = "all_concepts ?eas (q_key q)"
  let ?p = "\<lparr>pregunta = PREGUNTAS ! (q - 1),
            total_respuestas = length ?eas,
            conceptos_frecuentes = most_common 10 (foldl counter_add [] ?all),
            puntos_clave_comunes = all_key_points ?eas (q_key q),
            distribucion_calidad = foldl counter_add [] (labels_of ?eas (q_key q))\<rparr>"
  have look: "map_of (pattern_analysis st') (q_key q) = Some ?p"
    and same: "extracted_answers st' = ?eas"
    using synthesize_patterns_lookup [of st st' q] a by simp_all
  have "list_all (\<lambda>kc. snd kc = freq (fst kc) ?all) (foldl counter_add [] ?all)"
    by (rule counter_counts_all)
  then have "list_all (\<lambda>kc. snd kc = freq (fst kc) ?all
      \<and> (no_repeats ?eas (q_key q) \<longrightarrow> snd kc = mentions (fst kc) ?eas (q_key q)))
      (foldl counter_add [] ?all)"
    by (auto simp: list_all_iff freq_mentions)
  then have counts: "list_all (\<lambda>kc. snd kc = freq (fst kc) ?all
      \<and> (no_repeats ?eas (q_key q) \<longrightarrow> snd kc = mentions (fst kc) ?eas (q_key q)))
      (conceptos_frecuentes ?p)"
    by (simp add: most_common_list_all)
  have lines: "concept_lines st' ?p =
      map (\<lambda>kc. (fst kc, snd kc, percentage (snd kc) (length ?eas))) (conceptos_frecuentes ?p)"
    by (simp add: concept_lines_def same case_prod_unfold)
  have total: "total_respuestas ?p = length ?eas"
    by simp
  show "\<exists>p. map_of (pattern_analysis st') (q_key q) = Some p
         \<and> total_respuestas p = length (extracted_answers st)
         \<and> list_all (\<lambda>kc. snd kc = freq (fst kc) (all_concepts (extracted_answers st) (q_key q))
               \<and> (no_repeats (extracted_answers st) (q_key q) \<longrightarrow>
                    snd kc = mentions (fst kc) (extracted_answers st) (q_key q)))
             (conceptos_frecuentes p)
         \<and> concept_lines st' p =
             map (\<lambda>kc. (fst kc, snd kc, percentage (snd kc) (length (extracted_answers st))))
               (conceptos_frecuentes p)"
    using look total counts lines by blast
qed

lemma repeated_concepts:
  "all_concepts repeated_answers ''pregunta_1'' = [JStr ''x'', JStr ''x'']"
  by (simp add: all_concepts_def repeated_answers_def answer_of_def list_field_def dict_get_def)

lemma repeated_labels: "labels_of repeated_answers ''pregunta_1'' = [JStr ''N/A'']"
  by (simp add: labels_of_def repeated_answers_def answer_of_def dict_get_def)

lemma repeated_key_points: "all_key_points repeated_answers ''pregunta_1'' = []"
  by (simp add: all_key_points_def repeated_answers_def answer_of_def list_field_def dict_get_def)

text \<open>
  C8 as stated fails: with one answer to the first question, which lists a concept
  twice, and one document without an answer to it, the total is 2 and not 1, and the
  concept, mentioned in one answer, is reported 2 times.
\<close>

theorem synth_question_counts_counterexample:
  "synth_question repeated_answers 1 =
     Inr \<lparr>pregunta = PREGUNTAS ! 0, total_respuestas = 2,
          conceptos_frecuentes = [(JStr ''x'', 2)], puntos_clave_comunes = [],
          distribucion_calidad = [(JStr ''N/A'', 1)]\<rparr>
   \<and> length (answers_to repeated_answers (q_key 1)) = 1
   \<and> mentions (JStr ''x'') repeated_answers (q_key 1) = 1"
proof -
  have "synth_question repeated_answers 1 =
     Inr \<lparr>pregunta = PREGUNTAS ! 0, total_respuestas = 2,
          conceptos_frecuentes = [(JStr ''x'', 2)], puntos_clave_comunes = [],
          distribucion_calidad = [(JStr ''N/A'', 1)]\<rparr>"
    by (simp add: synth_question_eq q_key_1 repeated_concepts repeated_labels
        repeated_key_points most_common_def key_eq_def)
      (simp add: repeated_answers_def)
  moreover have "length (answers_to repeated_answers (q_key 1)) = 1"
    by (simp add: q_key_1 answers_to_def repeated_answers_def answer_of_def)
  moreover have "mentions (JStr ''x'') repeated_answers (q_key 1) = 1"
    by (simp add: q_key_1 mentions_def repeated_answers_def concepts_of_def answer_of_def
        list_field_def dict_get_def)
  ultimately show ?thesis by blast
qed

theorem synthesize_patterns_counts_witness:
  "\<exists>st' p. synthesize_patterns ((init [])\<lparr>extracted_answers := demo_answers\<rparr>) = Inr st'
     \<and> map_of (pattern_analysis st') ''pregunta_1'' = Some p
     \<and> total_respuestas p = 2
     \<and> list_all (\<lambda>kc. snd kc = mentions (fst kc) demo_answers ''pregunta_1'')
          (conceptos_frecuentes p)"
proof -
  let ?st = "(init [])\<lparr>extracted_answers := demo_answers\<rparr>"
  obtain st' where st': "synthesize_patterns ?st = Inr st'"
    by (simp add: synthesize_patterns_eq demo_syn)
  have q: "1 \<in> set question_numbers"
    by (simp add: question_numbers_def)
  have nr: "no_repeats demo_answers ''pregunta_1''"
    by (simp add: no_repeats_def demo_answers_def concepts_of_def answer_of_def list_field_def
        dict_get_def)
  from synthesize_patterns_counts [of ?st] st' q
  obtain p where p: "map_of (pattern_analysis st') (q_key 1) = Some p"
    and t: "total_respuestas p = length (extracted_answers ?st)"
    and c: "list_all (\<lambda>kc. snd kc = freq (fst kc) (all_concepts (extracted_answers ?st) (q_key 1))
               \<and> (no_repeats (extracted_answers ?st) (q_key 1) \<longrightarrow>
                    snd kc = mentions (fst kc) (extracted_answers ?st) (q_key 1)))
             (conceptos_frecuentes p)"
    by blast
  have "total_respuestas p = 2"
    using t by (simp add: demo_answers_def)
  moreover have "list_all (\<lambda>kc. snd kc = mentions (fst kc) demo_answers ''pregunta_1'')
      (conceptos_frecuentes p)"
    using c nr by (auto simp: q_key_1 list_all_iff)
  ultimately show ?thesis
    using st' p by (auto simp: q_key_1)
qed

lemma key_eq_JStr: "key_eq (JStr s) x = (x = JStr s)"
  by (cases x) (auto simp: key_eq_def)

lemma freq_JStr: "freq (JStr s) xs = length (filter (\<lambda>x. x = JStr s) xs)"
  by (induction xs) (simp_all add: freq_def key_eq_JStr)

lemma counter_get_label:
  "counter_get (foldl counter_add [] xs) (JStr s) = length (filter (\<lambda>x. x = JStr s) xs)"
  by (simp add: counter_get_foldl freq_JStr)

lemma length_labels_of: "length (labels_of eas qk) = length (answers_to eas qk)"
  by (induction eas) (auto simp: labels_of_def answers_to_def split: option.splits)

lemma length_answers_to: "length (answers_to eas qk) \<le> length eas"
  by (simp add: answers_to_def)

lemma three_labels_split:
  assumes "a \<noteq> b" and "a \<noteq> c" and "b \<noteq> c"
  shows "length (filter (\<lambda>x. x = a) xs) + length (filter (\<lambda>x. x = b) xs)
       + length (filter (\<lambda>x. x = c) xs) + length (filter (\<lambda>x. x \<notin> {a, b, c}) xs) = length xs"
  using assms by (induction xs) auto

lemma synthesize_patterns_fresh:
  assumes "synthesize_patterns st = Inr st'" and "pattern_analysis st = []"
  shows "map fst (pattern_analysis st') = map q_key question_numbers
    \<and> length (pattern_analysis st') = 3
    \<and> (\<forall>q \<in> set question_numbers.
          map_of (pattern_analysis st') (q_key q) = Some (snd (pattern_analysis st' ! (q - 1))))"
proof -
  have "synthesizable (extracted_answers st)"
    using assms by (simp add: synthesize_patterns_eq split: if_splits)
  then have "pattern_analysis st' =
      [(''pregunta_1'', projr (synth_question (extracted_answers st) 1)),
       (''pregunta_2'', projr (synth_question (extracted_answers st) 2)),
       (''pregunta_3'', projr (synth_question (extracted_answers st) 3))]"
    using assms by (auto simp: synthesize_patterns_eq)
  then show ?thesis
    by (simp add: question_numbers_def q_key_1 q_key_2 q_key_3)
qed

lemma export_reports_patterns:
  "export_reports xl st = Inr out \<Longrightarrow>
   analisis_patrones out = map (\<lambda>kp. pattern_row_of (snd kp)) (pattern_analysis st)
   \<and> pauta_correccion_json out = rubric st"
  by (auto simp: export_reports_def Let_def case_prod_unfold split: sum.splits option.splits)

text \<open>
  C10. In the exported table of patterns, made after synthesis on a fresh analyzer, the
  row of each question has as total the number of extracted documents, and its three
  quality columns count the answers whose label is exactly \<^verbatim>\<open>alta\<close>, \<^verbatim>\<open>media\<close> and
  \<^verbatim>\<open>baja\<close>. Together with the answers that carry another label (a missing one counts as
  \<^verbatim>\<open>N/A\<close>) and the documents without an answer to the question they make up the total,
  so the three columns can sum to less than it.
\<close>

theorem quality_columns:
  "\<forall>st' st'' out q.
     synthesize_patterns st = Inr st' \<and> pattern_analysis st = []
     \<and> pattern_analysis st'' = pattern_analysis st' \<and> export_reports xl st'' = Inr out
     \<and> q \<in> set question_numbers \<longrightarrow>
     length (analisis_patrones out) = 3
     \<and> Total_Respuestas (analisis_patrones out ! (q - 1)) = length (extracted_answers st)
     \<and> Calidad_Alta (analisis_patrones out ! (q - 1)) =
         length (filter (\<lambda>l. l = JStr ''alta'') (labels_of (extracted_answers st) (q_key q)))
     \<and> Calidad_Media (analisis_patrones out ! (q - 1)) =
         length (filter (\<lambda>l. l = JStr ''media'') (labels_of (extracted_answers st) (q_key q)))
     \<and> Calidad_Baja (analisis_patrones out ! (q - 1)) =
         length (filter (\<lambda>l. l = JStr ''baja'') (labels_of (extracted_answers st) (q_key q)))
     \<and> Calidad_Alta (analisis_patrones out ! (q - 1))
         + Calidad_Media (analisis_patrones out ! (q - 1))
         + Calidad_Baja (analisis_patrones out ! (q - 1))
         + length (filter (\<lambda>l. l \<notin> {JStr ''alta'', JStr ''media'', JStr ''baja''})
                     (labels_of (extracted_answers st) (q_key q)))
         + (length (extracted_answers st)
              - length (answers_to (extracted_answers st) (q_key q)))
       = Total_Respuestas (analisis_patrones out ! (q - 1))"
proof (intro allI impI)
  fix st' st'' out q
  assume a: "synthesize_patterns st = Inr st' \<and> pattern_analysis st = []
     \<and> pattern_analysis st'' = pattern_analysis st' \<and> export_reports xl st'' = Inr out
     \<and> q \<in> set question_numbers"
  let ?eas = "extracted_answers st"
  let ?ls = "labels_of ?eas (q_key q)"
  let ?p = "\<lparr>pregunta = PREGUNTAS ! (q - 1),
            total_respuestas = length ?eas,
            conceptos_frecuentes =
              most_common 10 (foldl counter_add [] (all_concepts ?eas (q_key q))),
            puntos_clave_comunes = all_key_points ?eas (q_key q),
            distribucion_calidad = foldl counter_add [] ?ls\<rparr>"
  let ?r = "analisis_patrones out ! (q - 1)"
  have fresh: "length (pattern_analysis st') = 3"
    and nth: "map_of (pattern_analysis st') (q_key q) = Some (snd (pattern_analysis st' ! (q - 1)))"
    using synthesize_patterns_fresh [of st st'] a by simp_all
  have "map_of (pattern_analysis st') (q_key q) = Some ?p"
    using synthesize_patterns_lookup [of st st' q] a by simp
  then have p: "snd (pattern_analysis st' ! (q - 1)) = ?p"
    using nth by simp
  have rows: "analisis_patrones out = map (\<lambda>kp. pattern_row_of (snd kp)) (pattern_analysis st')"
    using export_reports_patterns [of xl st'' out] a by simp
  have "q - 1 < 3"
    using a by (auto simp: question_numbers_def)
  then have r: "?r = pattern_row_of ?p"
    using rows fresh p by simp
  have len: "length (analisis_patrones out) = 3"
    using rows fresh by simp
  have total: "Total_Respuestas ?r = length ?eas"
    by (simp only: r) (simp add: pattern_row_of_def)
  have alta: "Calidad_Alta ?r = length (filter (\<lambda>l. l = JStr ''alta'') ?ls)"
    by (simp only: r) (simp add: pattern_row_of_def counter_get_label)
  have media: "Calidad_Media ?r = length (filter (\<lambda>l. l = JStr ''media'') ?ls)"
    by (simp only: r) (simp add: pattern_row_of_def counter_get_label)
  have baja: "Calidad_Baja ?r = length (filter (\<lambda>l. l = JStr ''baja'') ?ls)"
    by (simp only: r) (simp add: pattern_row_of_def counter_get_label)
  have "length (filter (\<lambda>l. l = JStr ''alta'') ?ls) + length (filter (\<lambda>l. l = JStr ''media'') ?ls)
      + length (filter (\<lambda>l. l = JStr ''baja'') ?ls)
      + length (filter (\<lambda>l. l \<notin> {JStr ''alta'', JStr ''media'', JStr ''baja''}) ?ls)
      = length ?ls"
    by (rule three_labels_split) simp_all
  then have sum: "Calidad_Alta ?r + Calidad_Media ?r + Calidad_Baja ?r
      + length (filter (\<lambda>l. l \<notin> {JStr ''alta'', JStr ''media'', JStr ''baja''}) ?ls)
      + (length ?eas - length (answers_to ?eas (q_key q))) = Total_Respuestas ?r"
    using length_answers_to [of ?eas "q_key q"]
    by (simp only: alta media baja total length_labels_of)
  show "length (analisis_patrones out) = 3
     \<and> Total_Respuestas (analisis_patrones out ! (q - 1)) = length (extracted_answers st)
     \<and> Calidad_Alta (analisis_patrones out ! (q - 1)) =
         length (filter (\<lambda>l. l = JStr ''alta'') (labels_of (extracted_answers st) (q_key q)))
     \<and> Calidad_Media (analisis_patrones out ! (q - 1)) =
         length (filter (\<lambda>l. l = JStr ''media'') (labels_of (extracted_answers st) (q_key q)))
     \<and> Calidad_Baja (analisis_patrones out ! (q - 1)) =
         length (filter (\<lambda>l. l = JStr ''baja'') (labels_of (extracted_answers st) (q_key q)))
     \<and> Calidad_Alta (analisis_patrones out ! (q - 1))
         + Calidad_Media (analisis_patrones out ! (q - 1))
         + Calidad_Baja (analisis_patrones out ! (q - 1))
         + length (filter (\<lambda>l. l \<notin> {JStr ''alta'', JStr ''media'', JStr ''baja''})
                     (labels_of (extracted_answers st) (q_key q)))
         + (length (extracted_answers st)
              - length (answers_to (extracted_answers st) (q_key q)))
       = Total_Respuestas (analisis_patrones out ! (q - 1))"
    using len total alta media baja sum by blast
qed

lemma rubric_text_empty: "rubric_text (JObj []) = Inr [Titulo]"
  by (simp add: rubric_text_def rubric_section_def question_numbers_def has_key_def)

lemma mixed_labels: "labels_of mixed_answers ''pregunta_1'' = [JStr ''alta'', JStr ''N/A'']"
  by (simp add: labels_of_def mixed_answers_def answer_of_def dict_get_def)

lemma mixed_syn: "synthesizable mixed_answers"
  by (simp add: synthesizable_def question_numbers_def q_key_1 q_key_2 q_key_3
      labels_of_def all_concepts_def mixed_answers_def answer_of_def list_field_def dict_get_def)

lemma mixed_details: "\<exists>rows. student_details mixed_answers = Inr rows"
  by (simp add: student_details_def student_rows_of_doc_def student_row_of_def
      question_numbers_def q_key_1 q_key_2 q_key_3 mixed_answers_def dict_get_def
      join_values_def)

theorem quality_columns_witness:
  "\<exists>st' out. synthesize_patterns ((init [])\<lparr>extracted_answers := mixed_answers\<rparr>) = Inr st'
     \<and> export_reports plain_writer st' = Inr out
     \<and> Total_Respuestas (analisis_patrones out ! 0) = 3
     \<and> Calidad_Alta (analisis_patrones out ! 0) = 1
     \<and> Calidad_Media (analisis_patrones out ! 0) = 0
     \<and> Calidad_Baja (analisis_patrones out ! 0) = 0"
proof -
  let ?st = "(init [])\<lparr>extracted_answers := mixed_answers\<rparr>"
  obtain st' where st': "synthesize_patterns ?st = Inr st'"
    by (simp add: synthesize_patterns_eq mixed_syn)
  then have "extracted_answers st' = mixed_answers" and "rubric st' = JObj []"
    by (auto simp: synthesize_patterns_eq mixed_syn init_def)
  then obtain out where out: "export_reports plain_writer st' = Inr out"
    using mixed_details by (auto simp: export_reports_def plain_writer_def rubric_text_empty)
  have fresh: "pattern_analysis ?st = []"
    by (simp add: init_def)
  have q: "1 \<in> set question_numbers"
    by (simp add: question_numbers_def)
  have "Total_Respuestas (analisis_patrones out ! (1 - 1)) = length (extracted_answers ?st)
     \<and> Calidad_Alta (analisis_patrones out ! (1 - 1)) =
         length (filter (\<lambda>l. l = JStr ''alta'') (labels_of (extracted_answers ?st) (q_key 1)))
     \<and> Calidad_Media (analisis_patrones out ! (1 - 1)) =
         length (filter (\<lambda>l. l = JStr ''media'') (labels_of (extracted_answers ?st) (q_key 1)))
     \<and> Calidad_Baja (analisis_patrones out ! (1 - 1)) =
         length (filter (\<lambda>l. l = JStr ''baja'') (labels_of (extracted_answers ?st) (q_key 1)))"
    using quality_columns [of ?st plain_writer] st' out fresh q by blast
  then have "Total_Respuestas (analisis_patrones out ! 0) = 3
     \<and> Calidad_Alta (analisis_patrones out ! 0) = 1
     \<and> Calidad_Media (analisis_patrones out ! 0) = 0
     \<and> Calidad_Baja (analisis_patrones out ! 0) = 0"
    by (simp add: q_key_1 mixed_labels) (simp add: mixed_answers_def)
  then show ?thesis
    using st' out by blast
qed

section \<open>Properties of the Answer Extractor\<close>

lemma extract_Some:
  "extract_answers_from_document cl st doc = Inr (Some a) \<Longrightarrow>
   ea_student_name a = student_name doc"
  by (auto simp: extract_answers_from_document_def
      split: sum.splits option.splits reply.splits json.splits)

lemma analyze_loop_order:
  "analyze_loop cl st docs = Inr st' \<Longrightarrow>
   \<exists>ds kept. subseq ds docs \<and> extracted_answers st' = extracted_answers st @ kept
     \<and> map ea_student_name kept = map student_name ds
     \<and> documents st' = documents st"
proof (induction docs arbitrary: st)
  case Nil
  then show ?case by auto
next
  case (Cons doc docs)
  show ?case
  proof (cases "extract_answers_from_document cl st doc")
    case (Inl e)
    then show ?thesis using Cons.prems by simp
  next
    case (Inr r)
    show ?thesis
    proof (cases r)
      case None
      then have "analyze_loop cl st docs = Inr st'"
        using Cons.prems Inr by simp
      from Cons.IH [OF this] obtain ds kept where
        "subseq ds docs" "extracted_answers st' = extracted_answers st @ kept"
        "map ea_student_name kept = map student_name ds" "documents st' = documents st"
        by blast
      then show ?thesis
        by (meson list_emb_Cons)
    next
      case (Some a)
      let ?st = "st\<lparr>extracted_answers := extracted_answers st @ [a]\<rparr>"
      have "analyze_loop cl ?st docs = Inr st'"
        using Cons.prems Inr Some by simp
      from Cons.IH [OF this] obtain ds kept where k:
        "subseq ds docs" "extracted_answers st' = extracted_answers ?st @ kept"
        "map ea_student_name kept = map student_name ds" "documents st' = documents ?st"
        by blast
      have n: "ea_student_name a = student_name doc"
        using Inr Some extract_Some by simp
      have "subseq (doc # ds) (doc # docs)"
        using k(1) by simp
      moreover have "extracted_answers st' = extracted_answers st @ (a # kept)"
        using k(2) by simp
      moreover have "map ea_student_name (a # kept) = map student_name (doc # ds)"
        using k(3) n by simp
      moreover have "documents st' = documents st"
        using k(4) by simp
      ultimately show ?thesis by blast
    qed
  qed
qed

text \<open>
  C5. When the extraction of a document gets to its request and there is no client, or
  the response is not JSON, it returns no result, and the loop goes on to the next
  document with the accumulated list as it was. The list accumulated by the run is the
  old one followed by the results of some of the documents, in the order of the
  documents.
\<close>

theorem extraction_skips_failures:
  "(\<forall>ctx. build_context (extracted_answers st) = Inr ctx
       \<and> (cl = None
          \<or> (\<exists>service. cl = Some service
                \<and> service (ExtractPrompt ctx (student_name doc) (full_text doc)) = NotJson))
     \<longrightarrow> extract_answers_from_document cl st doc = Inr None
         \<and> analyze_loop cl st (doc # docs) = analyze_loop cl st docs)
   \<and> (\<forall>st'. analyze_patterns_iteratively cl st = Inr st' \<longrightarrow>
         (\<exists>ds kept. subseq ds (documents st)
            \<and> extracted_answers st' = extracted_answers st @ kept
            \<and> map ea_student_name kept = map student_name ds))"
proof (intro conjI allI impI)
  fix ctx
  assume a: "build_context (extracted_answers st) = Inr ctx
       \<and> (cl = None
          \<or> (\<exists>service. cl = Some service
                \<and> service (ExtractPrompt ctx (student_name doc) (full_text doc)) = NotJson))"
  then show e: "extract_answers_from_document cl st doc = Inr None"
    by (auto simp: extract_answers_from_document_def)
  then show "analyze_loop cl st (doc # docs) = analyze_loop cl st docs"
    by simp
next
  fix st'
  assume "analyze_patterns_iteratively cl st = Inr st'"
  then have "analyze_loop cl st (documents st) = Inr st'"
    by (simp add: analyze_patterns_iteratively_def)
  from analyze_loop_order [OF this]
  show "\<exists>ds kept. subseq ds (documents st)
            \<and> extracted_answers st' = extracted_answers st @ kept
            \<and> map ea_student_name kept = map student_name ds"
    by blast
qed

lemma print_summary_empty: "print_summary [] = Inr []"
  by (simp add: print_summary_def summary_of_def question_numbers_def)

lemma render_prev_empty:
  "render_prev \<lparr>ea_student_name = n, answers = []\<rparr> = Inr (''Documento: '' @ n @ ''\<newline>\<newline>'')"
  by (simp add: render_prev_def)

lemma skipping_run:
  "analyze_patterns_iteratively (Some skipping_service) ((init [])\<lparr>documents := three_documents\<rparr>) =
     Inr ((init [])\<lparr>documents := three_documents,
            extracted_answers := [\<lparr>ea_student_name = ''ana'', answers = []\<rparr>,
                                  \<lparr>ea_student_name = ''eva'', answers = []\<rparr>]\<rparr>)"
  by (simp add: analyze_patterns_iteratively_def three_documents_def init_def
      extract_answers_from_document_def build_context_def last_three_def render_prev_empty
      skipping_service_def print_summary_empty)

theorem extraction_skips_failures_witness:
  "extract_answers_from_document (Some skipping_service)
       ((init [])\<lparr>documents := three_documents\<rparr>) (three_documents ! 1) = Inr None
   \<and> (\<exists>st'. analyze_patterns_iteratively (Some skipping_service)
          ((init [])\<lparr>documents := three_documents\<rparr>) = Inr st'
        \<and> map ea_student_name (extracted_answers st') = [''ana'', ''eva''])"
proof -
  let ?st = "(init [])\<lparr>documents := three_documents\<rparr>"
  have c: "build_context (extracted_answers ?st) = Inr []"
    by (simp add: build_context_def init_def)
  have n: "skipping_service (ExtractPrompt [] (student_name (three_documents ! 1))
      (full_text (three_documents ! 1))) = NotJson"
    by (simp add: skipping_service_def three_documents_def)
  have "extract_answers_from_document (Some skipping_service) ?st (three_documents ! 1) = Inr None"
    using extraction_skips_failures [of ?st "Some skipping_service" "three_documents ! 1" "[]"] c n
    by blast
  then show ?thesis
    by (simp add: skipping_run)
qed

lemma last_three_idem: "last_three (last_three xs) = last_three xs"
  by (simp add: last_three_def)

lemma last_three_Nil: "(last_three xs = []) = (xs = [])"
  by (cases xs) (simp_all add: last_three_def)

lemma length_last_three: "length (last_three xs) \<le> 3"
  by (simp add: last_three_def)

lemma last_three_append3: "last_three (xs @ [a, b, c]) = [a, b, c]"
  by (simp add: last_three_def)

lemma build_context_window: "build_context eas = build_context (last_three eas)"
  by (simp add: build_context_def last_three_idem last_three_Nil)

lemma try_map_Inr: "(try_map f xs = Inr ys) = list_all2 (\<lambda>x y. f x = Inr y) xs ys"
proof (induction xs arbitrary: ys)
  case Nil
  then show ?case by auto
next
  case (Cons x xs)
  show ?case
    using Cons [of "tl ys"] by (cases ys) (auto split: sum.splits)
qed

lemma render_prev_Inr:
  "(render_prev prev = Inr b) =
     (\<exists>ls. list_all2 (\<lambda>qa l. render_answer (fst qa) (snd qa) = Inr l) (answers prev) ls
        \<and> b = ''Documento: '' @ ea_student_name prev @ ''\<newline>'' @ concat ls @ ''\<newline>'')"
proof -
  have "(render_prev prev = Inr b) =
     (\<exists>ls. try_map (\<lambda>qa. render_answer (fst qa) (snd qa)) (answers prev) = Inr ls
        \<and> b = ''Documento: '' @ ea_student_name prev @ ''\<newline>'' @ concat ls @ ''\<newline>'')"
    by (auto simp: render_prev_def case_prod_unfold split: sum.splits)
  then show ?thesis
    by (simp only: try_map_Inr)
qed

lemma build_context_Inr:
  assumes "build_context eas = Inr ctx" and "eas \<noteq> []"
  shows "\<exists>blocks. ctx = context_header @ concat blocks
    \<and> list_all2 (\<lambda>prev b. \<exists>ls.
          list_all2 (\<lambda>qa l. render_answer (fst qa) (snd qa) = Inr l) (answers prev) ls
          \<and> b = ''Documento: '' @ ea_student_name prev @ ''\<newline>'' @ concat ls @ ''\<newline>'')
        (last_three eas) blocks"
proof -
  from assms obtain blocks where b: "try_map render_prev (last_three eas) = Inr blocks"
    and c: "ctx = context_header @ concat blocks"
    by (auto simp: build_context_def split: sum.splits)
  from b have "list_all2 (\<lambda>prev b. render_prev prev = Inr b) (last_three eas) blocks"
    by (simp add: try_map_Inr)
  then show ?thesis
    using c by (auto simp: render_prev_Inr)
qed

lemma three_extractions:
  assumes "extract_answers_from_document cl st d1 = Inr (Some e1)"
    and "extract_answers_from_document cl
           (st\<lparr>extracted_answers := extracted_answers st @ [e1]\<rparr>) d2 = Inr (Some e2)"
    and "extract_answers_from_document cl
           (st\<lparr>extracted_answers := extracted_answers st @ [e1, e2]\<rparr>) d3 = Inr (Some e3)"
  shows "analyze_loop cl st [d1, d2, d3] =
      Inr (st\<lparr>extracted_answers := extracted_answers st @ [e1, e2, e3]\<rparr>)"
  using assms by simp

text \<open>
  C3, as the code has it. The context is that of the last three entries of the
  accumulated list, at most three; it is the header followed by one block for each of
  them, made of the document line and the lines of the entries of its answers. An entry
  whose key points are a non-empty list with strings in the first three places gives
  those, joined; one whose key points are a string gives its first 200 characters; one
  that is no dict or has no key points gives the placeholder; one whose key points are an
  empty list, or neither a list nor a string, gives no line. After three extractions in
  a row that each return a result, the context is that of these three results, whatever
  was accumulated before.
\<close>

theorem context_window:
  "build_context eas = build_context (last_three eas)
   \<and> length (last_three eas) \<le> 3
   \<and> (\<forall>ctx. build_context eas = Inr ctx \<and> eas \<noteq> [] \<longrightarrow>
        (\<exists>blocks. ctx = context_header @ concat blocks
           \<and> list_all2 (\<lambda>prev b. \<exists>ls.
                 list_all2 (\<lambda>qa l. render_answer (fst qa) (snd qa) = Inr l) (answers prev) ls
                 \<and> b = ''Documento: '' @ ea_student_name prev @ ''\<newline>'' @ concat ls
                       @ ''\<newline>'')
               (last_three eas) blocks))
   \<and> (\<forall>q d kps ss. map_of d ''key_points'' = Some (JList kps) \<and> kps \<noteq> []
          \<and> strs (take 3 kps) = Some ss \<longrightarrow>
        render_answer q (JObj d) =
          Inr (''  Pregunta '' @ q @ '': '' @ join '', '' ss @ ''...\<newline>''))
   \<and> (\<forall>q d s. map_of d ''key_points'' = Some (JStr s) \<longrightarrow>
        render_answer q (JObj d) =
          Inr (''  Pregunta '' @ q @ '': '' @ take 200 s @ ''...\<newline>''))
   \<and> (\<forall>q a. \<not> is_dict a \<or> (\<exists>d. a = JObj d \<and> map_of d ''key_points'' = None) \<longrightarrow>
        render_answer q a = Inr (''  Pregunta '' @ q @ '': '' @ placeholder @ ''\<newline>''))
   \<and> (\<forall>q d v. map_of d ''key_points'' = Some v
          \<and> (v = JList [] \<or> (\<not> is_list v \<and> \<not> is_str v)) \<longrightarrow>
        render_answer q (JObj d) = Inr [])
   \<and> (\<forall>cl st d1 d2 d3 e1 e2 e3.
        extract_answers_from_document cl st d1 = Inr (Some e1)
        \<and> extract_answers_from_document cl
             (st\<lparr>extracted_answers := extracted_answers st @ [e1]\<rparr>) d2 = Inr (Some e2)
        \<and> extract_answers_from_document cl
             (st\<lparr>extracted_answers := extracted_answers st @ [e1, e2]\<rparr>) d3 = Inr (Some e3)
        \<and> extracted_answers st = eas \<longrightarrow>
        analyze_loop cl st [d1, d2, d3] =
          Inr (st\<lparr>extracted_answers := eas @ [e1, e2, e3]\<rparr>)
        \<and> build_context (eas @ [e1, e2, e3]) = build_context [e1, e2, e3])"
proof (intro conjI allI impI)
  show "build_context eas = build_context (last_three eas)"
    by (rule build_context_window)
  show "length (last_three eas) \<le> 3"
    by (rule length_last_three)
next
  fix ctx
  assume "build_context eas = Inr ctx \<and> eas \<noteq> []"
  then show "\<exists>blocks. ctx = context_header @ concat blocks
           \<and> list_all2 (\<lambda>prev b. \<exists>ls.
                 list_all2 (\<lambda>qa l. render_answer (fst qa) (snd qa) = Inr l) (answers prev) ls
                 \<and> b = ''Documento: '' @ ea_student_name prev @ ''\<newline>'' @ concat ls
                       @ ''\<newline>'')
               (last_three eas) blocks"
    using build_context_Inr [of eas ctx] by simp
next
  fix q d kps ss
  assume "map_of d ''key_points'' = Some (JList kps) \<and> kps \<noteq> []
          \<and> strs (take 3 kps) = Some ss"
  then show "render_answer q (JObj d) =
          Inr (''  Pregunta '' @ q @ '': '' @ join '', '' ss @ ''...\<newline>'')"
    by (simp add: render_answer_def join_values_def)
next
  fix q d s
  assume "map_of d ''key_points'' = Some (JStr s)"
  then show "render_answer q (JObj d) =
          Inr (''  Pregunta '' @ q @ '': '' @ take 200 s @ ''...\<newline>'')"
    by (simp add: render_answer_def)
next
  fix q a
  assume "\<not> is_dict a \<or> (\<exists>d. a = JObj d \<and> map_of d ''key_points'' = None)"
  then show "render_answer q a = Inr (''  Pregunta '' @ q @ '': '' @ placeholder @ ''\<newline>'')"
    by (cases a) (auto simp: render_answer_def)
next
  fix q d v
  assume "map_of d ''key_points'' = Some v
          \<and> (v = JList [] \<or> (\<not> is_list v \<and> \<not> is_str v))"
  then show "render_answer q (JObj d) = Inr []"
    by (cases v) (auto simp: render_answer_def)
next
  fix cl st d1 d2 d3 e1 e2 e3
  assume a: "extract_answers_from_document cl st d1 = Inr (Some e1)
        \<and> extract_answers_from_document cl
             (st\<lparr>extracted_answers := extracted_answers st @ [e1]\<rparr>) d2 = Inr (Some e2)
        \<and> extract_answers_from_document cl
             (st\<lparr>extracted_answers := extracted_answers st @ [e1, e2]\<rparr>) d3 = Inr (Some e3)
        \<and> extracted_answers st = eas"
  then have e: "extracted_answers st = eas"
    by simp
  from a show "analyze_loop cl st [d1, d2, d3] =
          Inr (st\<lparr>extracted_answers := eas @ [e1, e2, e3]\<rparr>)"
    unfolding e [symmetric] using three_extractions [of cl st d1 e1 d2 e2 d3 e3] by blast
  show "build_context (eas @ [e1, e2, e3]) = build_context [e1, e2, e3]"
    using build_context_window [of "eas @ [e1, e2, e3]"] by (simp add: last_three_append3)
qed

text \<open>
  C3 as stated fails. An answer whose key points are the empty list gets no line and no
  placeholder. And when the third of four documents is skipped, the context for a fifth
  document is made of the first, second and fourth: it names the first document.
\<close>

theorem context_window_counterexample:
  "build_context [\<lparr>ea_student_name = ''ana'',
                   answers = [(''pregunta_1'', JObj [(''key_points'', JList [])])]\<rparr>] =
     Inr (context_header @ ''Documento: ana\<newline>\<newline>'')
   \<and> analyze_loop (Some skipping_service) (init []) four_documents =
       Inr ((init [])\<lparr>extracted_answers :=
              [\<lparr>ea_student_name = ''ana'', answers = []\<rparr>,
               \<lparr>ea_student_name = ''eva'', answers = []\<rparr>,
               \<lparr>ea_student_name = ''raul'', answers = []\<rparr>]\<rparr>)
   \<and> build_context [\<lparr>ea_student_name = ''ana'', answers = []\<rparr>,
                     \<lparr>ea_student_name = ''eva'', answers = []\<rparr>,
                     \<lparr>ea_student_name = ''raul'', answers = []\<rparr>] =
       Inr (context_header @ ''Documento: ana\<newline>\<newline>''
            @ ''Documento: eva\<newline>\<newline>'' @ ''Documento: raul\<newline>\<newline>'')"
proof (intro conjI)
  show "build_context [\<lparr>ea_student_name = ''ana'',
                   answers = [(''pregunta_1'', JObj [(''key_points'', JList [])])]\<rparr>] =
     Inr (context_header @ ''Documento: ana\<newline>\<newline>'')"
    by (simp add: build_context_def last_three_def render_prev_def render_answer_def)
  show "analyze_loop (Some skipping_service) (init []) four_documents =
       Inr ((init [])\<lparr>extracted_answers :=
              [\<lparr>ea_student_name = ''ana'', answers = []\<rparr>,
               \<lparr>ea_student_name = ''eva'', answers = []\<rparr>,
               \<lparr>ea_student_name = ''raul'', answers = []\<rparr>]\<rparr>)"
    by (simp add: four_documents_def init_def
      extract_answers_from_document_def build_context_def last_three_def render_prev_empty
      skipping_service_def print_summary_empty)
  show "build_context [\<lparr>ea_student_name = ''ana'', answers = []\<rparr>,
                     \<lparr>ea_student_name = ''eva'', answers = []\<rparr>,
                     \<lparr>ea_student_name = ''raul'', answers = []\<rparr>] =
       Inr (context_header @ ''Documento: ana\<newline>\<newline>''
            @ ''Documento: eva\<newline>\<newline>'' @ ''Documento: raul\<newline>\<newline>'')"
    by (simp add: build_context_def last_three_def render_prev_empty)
qed

theorem context_window_witness:
  "build_context [\<lparr>ea_student_name = ''zoe'', answers = []\<rparr>,
                  \<lparr>ea_student_name = ''ana'', answers = []\<rparr>,
                  \<lparr>ea_student_name = ''eva'', answers = []\<rparr>,
                  \<lparr>ea_student_name = ''raul'', answers = []\<rparr>] =
     Inr (context_header @ ''Documento: ana\<newline>\<newline>''
          @ ''Documento: eva\<newline>\<newline>'' @ ''Documento: raul\<newline>\<newline>'')
   \<and> render_answer ''pregunta_1''
        (JObj [(''key_points'', JList [JStr ''a'', JStr ''b'', JStr ''c'', JStr ''d''])]) =
       Inr ''  Pregunta pregunta_1: a, b, c...\<newline>''"
proof -
  let ?e0 = "\<lparr>ea_student_name = ''zoe'', answers = []\<rparr>"
  let ?e1 = "\<lparr>ea_student_name = ''ana'', answers = []\<rparr>"
  let ?e2 = "\<lparr>ea_student_name = ''eva'', answers = []\<rparr>"
  let ?e3 = "\<lparr>ea_student_name = ''raul'', answers = []\<rparr>"
  let ?st = "(init [])\<lparr>extracted_answers := [?e0]\<rparr>"
  let ?d1 = "four_documents ! 0"
  let ?d2 = "four_documents ! 1"
  let ?d3 = "four_documents ! 3"
  note cw = context_window [of "[?e0]"]
  have h1: "extract_answers_from_document (Some skipping_service) ?st ?d1 = Inr (Some ?e1)"
    by (simp add: four_documents_def init_def
      extract_answers_from_document_def build_context_def last_three_def render_prev_empty
      skipping_service_def print_summary_empty)
  have h2: "extract_answers_from_document (Some skipping_service)
      (?st\<lparr>extracted_answers := extracted_answers ?st @ [?e1]\<rparr>) ?d2 = Inr (Some ?e2)"
    by (simp add: four_documents_def init_def
      extract_answers_from_document_def build_context_def last_three_def render_prev_empty
      skipping_service_def print_summary_empty)
  have h3: "extract_answers_from_document (Some skipping_service)
      (?st\<lparr>extracted_answers := extracted_answers ?st @ [?e1, ?e2]\<rparr>) ?d3 = Inr (Some ?e3)"
    by (simp add: four_documents_def init_def
      extract_answers_from_document_def build_context_def last_three_def render_prev_empty
      skipping_service_def print_summary_empty)
  have h4: "extracted_answers ?st = [?e0]"
    by simp
  from cw have w: "\<forall>cl st d1 d2 d3 e1 e2 e3.
        extract_answers_from_document cl st d1 = Inr (Some e1)
        \<and> extract_answers_from_document cl
             (st\<lparr>extracted_answers := extracted_answers st @ [e1]\<rparr>) d2 = Inr (Some e2)
        \<and> extract_answers_from_document cl
             (st\<lparr>extracted_answers := extracted_answers st @ [e1, e2]\<rparr>) d3 = Inr (Some e3)
        \<and> extracted_answers st = [?e0] \<longrightarrow>
        analyze_loop cl st [d1, d2, d3] =
          Inr (st\<lparr>extracted_answers := [?e0] @ [e1, e2, e3]\<rparr>)
        \<and> build_context ([?e0] @ [e1, e2, e3]) = build_context [e1, e2, e3]"
    by (elim conjE)
  have "build_context ([?e0] @ [?e1, ?e2, ?e3]) = build_context [?e1, ?e2, ?e3]"
    using w [rule_format, of "Some skipping_service" ?st ?d1 ?e1 ?d2 ?e2 ?d3 ?e3] h1 h2 h3 h4
    by blast
  moreover have "build_context [?e1, ?e2, ?e3] =
      Inr (context_header @ ''Documento: ana\<newline>\<newline>''
          @ ''Documento: eva\<newline>\<newline>'' @ ''Documento: raul\<newline>\<newline>'')"
    by (simp add: build_context_def last_three_def render_prev_empty)
  moreover from cw have r: "\<forall>q d kps ss. map_of d ''key_points'' = Some (JList kps) \<and> kps \<noteq> []
          \<and> strs (take 3 kps) = Some ss \<longrightarrow>
        render_answer q (JObj d) =
          Inr (''  Pregunta '' @ q @ '': '' @ join '', '' ss @ ''...\<newline>'')"
    by (elim conjE)
  have "render_answer ''pregunta_1''
        (JObj [(''key_points'', JList [JStr ''a'', JStr ''b'', JStr ''c'', JStr ''d''])]) =
       Inr ''  Pregunta pregunta_1: a, b, c...\<newline>''"
    using r [rule_format, of "[(''key_points'', JList [JStr ''a'', JStr ''b'', JStr ''c'', JStr ''d''])]"
        "[JStr ''a'', JStr ''b'', JStr ''c'', JStr ''d'']" "[''a'', ''b'', ''c'']" "''pregunta_1''"]
    by simp
  ultimately show ?thesis
    by simp
qed

section \<open>Properties of the Rubric Generator\<close>

lemma try_map_map:
  assumes "try_map f xs = Inr ys" and "\<And>x y. f x = Inr y \<Longrightarrow> y = g x"
  shows "ys = map g xs"
  using assms by (induction xs arbitrary: ys) (auto split: sum.splits)

lemma try_map_total:
  "list_all (\<lambda>x. \<exists>y. f x = Inr y) xs \<Longrightarrow> \<exists>ys. try_map f xs = Inr ys"
  by (induction xs) auto

lemma try_map_all:
  assumes "try_map f xs = Inr yss" and "\<And>x ys. f x = Inr ys \<Longrightarrow> list_all P ys"
  shows "list_all P (concat yss)"
  using assms by (induction xs arbitrary: yss) (auto split: sum.splits)

lemma slice500_truncated: "slice500 v = Inr r \<Longrightarrow> r = truncated v \<and> within500 r"
  by (cases v) auto

lemma example_of_Inr:
  assumes "example_of doc q = Inr xs"
  shows "xs = map (example_for doc q) (high_of doc q)"
  using assms
  by (auto simp: example_of_def high_of_def answer_of_def example_for_def
      split: option.splits json.splits if_splits sum.splits dest: slice500_truncated)

lemma example_of_within:
  assumes "example_of doc q = Inr xs"
  shows "list_all (\<lambda>e. within500 (respuesta e)) xs"
  using assms
  by (auto simp: example_of_def
      split: option.splits json.splits if_splits sum.splits dest: slice500_truncated)

lemma examples_of_doc_Inr:
  assumes "examples_of_doc doc = Inr xs"
  shows "xs = concat (map (\<lambda>q. map (example_for doc q) (high_of doc q)) question_numbers)"
proof -
  from assms obtain xss where x: "try_map (example_of doc) question_numbers = Inr xss"
    and c: "xs = concat xss"
    by (auto simp: examples_of_doc_def split: sum.splits)
  have "xss = map (\<lambda>q. map (example_for doc q) (high_of doc q)) question_numbers"
    using x by (rule try_map_map) (rule example_of_Inr)
  then show ?thesis using c by simp
qed

lemma examples_of_doc_within:
  assumes "examples_of_doc doc = Inr xs"
  shows "list_all (\<lambda>e. within500 (respuesta e)) xs"
proof -
  from assms obtain xss where x: "try_map (example_of doc) question_numbers = Inr xss"
    and c: "xs = concat xss"
    by (auto simp: examples_of_doc_def split: sum.splits)
  show ?thesis
    unfolding c using x by (rule try_map_all) (rule example_of_within)
qed

lemma high_quality_examples_Inr:
  assumes "high_quality_examples eas = Inr exs"
  shows "exs = high_answers eas \<and> list_all (\<lambda>e. within500 (respuesta e)) exs"
proof -
  from assms obtain xss where x: "try_map examples_of_doc eas = Inr xss"
    and c: "exs = concat xss"
    by (auto simp: high_quality_examples_def split: sum.splits)
  have "xss = map (\<lambda>doc. concat (map (\<lambda>q. map (example_for doc q) (high_of doc q))
      question_numbers)) eas"
    using x by (rule try_map_map) (rule examples_of_doc_Inr)
  then have a: "exs = high_answers eas"
    using c by (simp add: high_answers_def)
  have "list_all (\<lambda>e. within500 (respuesta e)) exs"
    unfolding c using x by (rule try_map_all) (rule examples_of_doc_within)
  then show ?thesis using a by simp
qed

lemma slice500_total: "is_str v \<or> is_list v \<Longrightarrow> \<exists>r. slice500 v = Inr r"
  by (cases v) auto

lemma example_of_total:
  assumes "case map_of (answers doc) (q_key q) of
           None \<Rightarrow> True
         | Some (JObj a) \<Rightarrow>
             dict_get a ''calidad_estimada'' JNull \<noteq> JStr ''alta''
             \<or> is_str (dict_get a ''respuesta_completa'' (JStr []))
             \<or> is_list (dict_get a ''respuesta_completa'' (JStr []))
         | Some v \<Rightarrow> False"
  shows "\<exists>xs. example_of doc q = Inr xs"
proof (cases "map_of (answers doc) (q_key q)")
  case None
  then show ?thesis by (simp add: example_of_def)
next
  case (Some v)
  then obtain a where v: "v = JObj a"
    using assms by (cases v) auto
  show ?thesis
  proof (cases "dict_get a ''calidad_estimada'' JNull = JStr ''alta''")
    case True
    then have "is_str (dict_get a ''respuesta_completa'' (JStr []))
        \<or> is_list (dict_get a ''respuesta_completa'' (JStr []))"
      using assms Some v by simp
    from slice500_total [OF this] show ?thesis
      using Some v True by (auto simp: example_of_def)
  next
    case False
    then show ?thesis using Some v by (simp add: example_of_def)
  qed
qed

lemma collectable_total: "collectable eas \<Longrightarrow> \<exists>exs. high_quality_examples eas = Inr exs"
proof -
  assume c: "collectable eas"
  have "list_all (\<lambda>doc. \<exists>ys. examples_of_doc doc = Inr ys) eas"
    unfolding list_all_iff
  proof
    fix doc assume "doc \<in> set eas"
    then have "list_all (\<lambda>q. \<exists>xs. example_of doc q = Inr xs) question_numbers"
      using c unfolding collectable_def list_all_iff by (auto intro: example_of_total)
    from try_map_total [OF this] show "\<exists>ys. examples_of_doc doc = Inr ys"
      by (auto simp: examples_of_doc_def)
  qed
  from try_map_total [OF this] show ?thesis
    by (auto simp: high_quality_examples_def)
qed

text \<open>
  C6. When the collection of the examples returns, which it does when every entry for a
  question is a dict and the text of each answer rated \<^verbatim>\<open>alta\<close> is a string or a list,
  the examples the request carries are the first six of the answers whose quality label
  equals \<^verbatim>\<open>alta\<close>, taken document by document and question by question from 1 to 3, each
  with its text cut to at most 500.
\<close>

theorem rubric_examples:
  "(collectable (extracted_answers st) \<longrightarrow>
      (\<exists>exs. high_quality_examples (extracted_answers st) = Inr exs))
   \<and> (\<forall>exs. high_quality_examples (extracted_answers st) = Inr exs \<longrightarrow>
         prompt_examples (rubric_prompt st exs) = take 6 (high_answers (extracted_answers st))
         \<and> length (prompt_examples (rubric_prompt st exs)) \<le> 6
         \<and> list_all (\<lambda>e. within500 (respuesta e)) (prompt_examples (rubric_prompt st exs)))"
proof (intro conjI allI impI)
  assume "collectable (extracted_answers st)"
  then show "\<exists>exs. high_quality_examples (extracted_answers st) = Inr exs"
    by (rule collectable_total)
next
  fix exs
  assume a: "high_quality_examples (extracted_answers st) = Inr exs"
  have p: "prompt_examples (rubric_prompt st exs) = take 6 exs"
    by (simp add: rubric_prompt_def)
  have e: "exs = high_answers (extracted_answers st)"
    using high_quality_examples_Inr [OF a] by blast
  have w: "list_all (\<lambda>e. within500 (respuesta e)) exs"
    using high_quality_examples_Inr [OF a] by blast
  show "prompt_examples (rubric_prompt st exs) = take 6 (high_answers (extracted_answers st))"
    using p e by simp
  show "length (prompt_examples (rubric_prompt st exs)) \<le> 6"
    using p by simp
  show "list_all (\<lambda>e. within500 (respuesta e)) (prompt_examples (rubric_prompt st exs))"
    using p w by (auto simp: list_all_iff dest: in_set_takeD)
qed

lemma all_high_examples:
  "examples_of_doc (all_high n) =
     Inr [\<lparr>ex_pregunta = 1, estudiante = n, respuesta = JStr ''un fondo''\<rparr>,
          \<lparr>ex_pregunta = 2, estudiante = n, respuesta = JStr ''un fondo''\<rparr>,
          \<lparr>ex_pregunta = 3, estudiante = n, respuesta = JStr ''un fondo''\<rparr>]"
  by (simp add: examples_of_doc_def example_of_def question_numbers_def q_key_1 q_key_2 q_key_3
      all_high_def high_entry_def dict_get_def)

theorem rubric_examples_witness:
  "\<exists>exs. high_quality_examples [all_high ''ana'', all_high ''eva'', all_high ''luis''] = Inr exs
     \<and> length exs = 9
     \<and> prompt_examples (rubric_prompt
          ((init [])\<lparr>extracted_answers := [all_high ''ana'', all_high ''eva'', all_high ''luis'']\<rparr>)
          exs) =
        [\<lparr>ex_pregunta = 1, estudiante = ''ana'', respuesta = JStr ''un fondo''\<rparr>,
         \<lparr>ex_pregunta = 2, estudiante = ''ana'', respuesta = JStr ''un fondo''\<rparr>,
         \<lparr>ex_pregunta = 3, estudiante = ''ana'', respuesta = JStr ''un fondo''\<rparr>,
         \<lparr>ex_pregunta = 1, estudiante = ''eva'', respuesta = JStr ''un fondo''\<rparr>,
         \<lparr>ex_pregunta = 2, estudiante = ''eva'', respuesta = JStr ''un fondo''\<rparr>,
         \<lparr>ex_pregunta = 3, estudiante = ''eva'', respuesta = JStr ''un fondo''\<rparr>]"
proof -
  let ?eas = "[all_high ''ana'', all_high ''eva'', all_high ''luis'']"
  let ?st = "(init [])\<lparr>extracted_answers := ?eas\<rparr>"
  have ev: "high_quality_examples ?eas =
      Inr [\<lparr>ex_pregunta = 1, estudiante = ''ana'', respuesta = JStr ''un fondo''\<rparr>,
         \<lparr>ex_pregunta = 2, estudiante = ''ana'', respuesta = JStr ''un fondo''\<rparr>,
         \<lparr>ex_pregunta = 3, estudiante = ''ana'', respuesta = JStr ''un fondo''\<rparr>,
         \<lparr>ex_pregunta = 1, estudiante = ''eva'', respuesta = JStr ''un fondo''\<rparr>,
         \<lparr>ex_pregunta = 2, estudiante = ''eva'', respuesta = JStr ''un fondo''\<rparr>,
         \<lparr>ex_pregunta = 3, estudiante = ''eva'', respuesta = JStr ''un fondo''\<rparr>,
         \<lparr>ex_pregunta = 1, estudiante = ''luis'', respuesta = JStr ''un fondo''\<rparr>,
         \<lparr>ex_pregunta = 2, estudiante = ''luis'', respuesta = JStr ''un fondo''\<rparr>,
         \<lparr>ex_pregunta = 3, estudiante = ''luis'', respuesta = JStr ''un fondo''\<rparr>]"
    by (simp add: high_quality_examples_def all_high_examples)
  have "collectable (extracted_answers ?st)"
    by (simp add: collectable_def question_numbers_def q_key_1 q_key_2 q_key_3 all_high_def
        high_entry_def dict_get_def)
  with rubric_examples [of ?st]
  obtain exs where exs: "high_quality_examples (extracted_answers ?st) = Inr exs"
    by blast
  with rubric_examples [of ?st]
  have "prompt_examples (rubric_prompt ?st exs) = take 6 (high_answers (extracted_answers ?st))"
    by blast
  moreover have "exs = projr (high_quality_examples ?eas)"
    using exs by simp
  moreover have "high_answers ?eas = projr (high_quality_examples ?eas)"
    using high_quality_examples_Inr [OF exs] exs by simp
  ultimately show ?thesis
    using exs by (simp add: ev)
qed

text \<open>
  C2 fails in the collection of the examples for the rubric. The response to the one
  document has a string for the first question. The extractor keeps it, the synthesizer
  passes over it, and \<^verbatim>\<open>generate_rubric\<close> calls \<^verbatim>\<open>.get\<close> on the string: the run ends
  in \<^verbatim>\<open>AttributeError\<close> before any report is written.
\<close>

theorem rubric_examples_raise:
  "(\<exists>st1 st2.
      analyze_patterns_iteratively (Some text_service) ((init [])\<lparr>documents := one_document\<rparr>)
        = Inr st1
      \<and> extracted_answers st1 =
          [\<lparr>ea_student_name = ''ana'', answers = [(''pregunta_1'', JStr ''texto'')]\<rparr>]
      \<and> synthesize_patterns st1 = Inr st2
      \<and> generate_rubric (Some text_service) st2 = Inl AttributeError)
   \<and> run_pipeline xl (Some text_service) ((init [])\<lparr>documents := one_document\<rparr>)
       = Inl AttributeError"
proof -
  let ?st0 = "(init [])\<lparr>documents := one_document\<rparr>"
  let ?e = "\<lparr>ea_student_name = ''ana'', answers = [(''pregunta_1'', JStr ''texto'')]\<rparr>"
  let ?st1 = "?st0\<lparr>extracted_answers := [?e]\<rparr>"
  have ps: "print_summary [(''pregunta_1'', JStr ''texto'')] = Inr []"
    by (simp add: print_summary_def summary_of_def question_numbers_def q_key_1 q_key_2 q_key_3)
  have a: "analyze_patterns_iteratively (Some text_service) ?st0 = Inr ?st1"
    by (simp add: analyze_patterns_iteratively_def one_document_def init_def
        extract_answers_from_document_def build_context_def text_service_def ps)
  have syn: "synthesizable [?e]"
    by (simp add: synthesizable_def question_numbers_def q_key_1 q_key_2 q_key_3
        labels_of_def all_concepts_def answer_of_def)
  then obtain st2 where s: "synthesize_patterns ?st1 = Inr st2"
    and e2: "extracted_answers st2 = [?e]"
    by (simp add: synthesize_patterns_eq)
  have hq: "high_quality_examples [?e] = Inl AttributeError"
    by (simp add: high_quality_examples_def examples_of_doc_def example_of_def
        question_numbers_def q_key_1)
  have g: "generate_rubric (Some text_service) st2 = Inl AttributeError"
    by (simp add: generate_rubric_def e2 hq)
  have "run_pipeline xl (Some text_service) ?st0 = Inl AttributeError"
    by (simp add: run_pipeline_def a s g)
  then show ?thesis
    using a s g by auto
qed

section \<open>Rubric failure and the export\<close>























section \<open>The question keys across the stages\<close>

lemma try_map_all_mem:
  assumes "try_map f xs = Inr yss"
    and "\<And>x ys. x \<in> set xs \<Longrightarrow> f x = Inr ys \<Longrightarrow> list_all P ys"
  shows "list_all P (concat yss)"
  using assms
proof (induction xs arbitrary: yss)
  case Nil
  then show ?case by simp
next
  case (Cons x xs)
  from Cons.prems(1) obtain y ys where fx: "f x = Inr y"
    and t: "try_map f xs = Inr ys" and e: "yss = y # ys"
    by (auto split: sum.splits)
  have "list_all P y"
    using Cons.prems(2) [of x y] fx by simp
  moreover have "list_all P (concat ys)"
  proof (rule Cons.IH [OF t])
    fix x' ys'
    assume "x' \<in> set xs" and "f x' = Inr ys'"
    then show "list_all P ys'"
      using Cons.prems(2) [of x' ys'] by simp
  qed
  ultimately show ?case
    by (simp add: e)
qed

lemma try_map_each:
  assumes "try_map f xs = Inr ys" and "\<And>x y. x \<in> set xs \<Longrightarrow> f x = Inr y \<Longrightarrow> P y"
  shows "list_all P ys"
  using assms
proof (induction xs arbitrary: ys)
  case Nil
  then show ?case by simp
next
  case (Cons x xs)
  from Cons.prems(1) obtain y zs where fx: "f x = Inr y"
    and t: "try_map f xs = Inr zs" and e: "ys = y # zs"
    by (auto split: sum.splits)
  have "P y"
    using Cons.prems(2) [of x y] fx by simp
  moreover have "list_all P zs"
  proof (rule Cons.IH [OF t])
    fix x' y'
    assume "x' \<in> set xs" and "f x' = Inr y'"
    then show "P y'"
      using Cons.prems(2) [of x' y'] by simp
  qed
  ultimately show ?case
    by (simp add: e)
qed

lemma student_row_of_num:
  "student_row_of doc q = Inr rows \<Longrightarrow> list_all (\<lambda>r. Pregunta_Num r = q) rows"
  by (auto simp: student_row_of_def Let_def split: option.splits json.splits sum.splits)

lemma student_rows_of_doc_num:
  assumes "student_rows_of_doc doc = Inr rows"
  shows "list_all (\<lambda>r. Pregunta_Num r \<in> set question_numbers) rows"
proof -
  from assms obtain rss where t: "try_map (student_row_of doc) question_numbers = Inr rss"
    and c: "rows = concat rss"
    by (auto simp: student_rows_of_doc_def split: sum.splits)
  show ?thesis
    unfolding c using t
  proof (rule try_map_all_mem)
    fix q rs
    assume "q \<in> set question_numbers" and "student_row_of doc q = Inr rs"
    then show "list_all (\<lambda>r. Pregunta_Num r \<in> set question_numbers) rs"
      using student_row_of_num [of doc q rs] by (auto simp: list_all_iff)
  qed
qed

lemma student_details_num:
  assumes "student_details eas = Inr rows"
  shows "list_all (\<lambda>r. Pregunta_Num r \<in> set question_numbers) rows"
proof -
  from assms obtain rss where t: "try_map student_rows_of_doc eas = Inr rss"
    and c: "rows = concat rss"
    by (auto simp: student_details_def split: sum.splits)
  show ?thesis
    unfolding c using t by (rule try_map_all) (rule student_rows_of_doc_num)
qed

lemma element_lines_lines:
  assumes "element_lines v = Inr ls"
  shows "list_all line_question_ok ls"
proof -
  from assms obtain elems where "try_map element_line elems = Inr ls"
    by (auto simp: element_lines_def split: sum.splits)
  then show ?thesis
  proof (rule try_map_each)
    fix x l
    assume "element_line x = Inr l"
    then show "line_question_ok l"
      by (cases x) (auto simp: element_line_def)
  qed
qed

lemma list_all_Criterio: "list_all line_question_ok (map Criterio cs)"
  by (simp add: list_all_iff)

lemma rubric_data_lines_lines:
  assumes "rubric_data_lines q v = Inr ls" and "q \<in> set question_numbers"
  shows "list_all line_question_ok ls"
proof -
  from assms(1) obtain rd where v: "v = JObj rd"
    by (cases v) (auto simp: rubric_data_lines_def)
  show ?thesis
    using assms unfolding v rubric_data_lines_def
    by (auto simp: list_all_Criterio split: sum.splits if_splits dest: element_lines_lines)
qed

lemma rubric_section_lines:
  assumes "rubric_section r q = Inr ls" and "q \<in> set question_numbers"
  shows "list_all line_question_ok ls"
proof -
  from assms(1) have "ls = [] \<or> (\<exists>v. rubric_data_lines q v = Inr ls)"
    by (auto simp: rubric_section_def split: sum.splits bool.splits)
  then show ?thesis
    using rubric_data_lines_lines assms(2) by auto
qed

lemma rubric_text_lines:
  assumes "rubric_text r = Inr ls"
  shows "list_all line_question_ok ls"
proof -
  from assms obtain sections where t: "try_map (rubric_section r) question_numbers = Inr sections"
    and l: "ls = Titulo # concat sections \<or> (\<exists>n. ls = Titulo # concat sections @ [Notas n])"
    by (auto simp: rubric_text_def split: sum.splits bool.splits)
  have "list_all line_question_ok (concat sections)"
    using t by (rule try_map_all_mem) (rule rubric_section_lines)
  then show ?thesis
    using l by auto
qed

lemma summary_of_key:
  "summary_of result k = Inr ls \<Longrightarrow> list_all (\<lambda>l. sm_pregunta l = k) ls"
  by (auto simp: summary_of_def Let_def split: option.splits json.splits sum.splits)

lemma print_summary_keys:
  assumes "print_summary result = Inr ls"
  shows "list_all (\<lambda>l. sm_pregunta l \<in> set (map q_key question_numbers)) ls"
proof -
  from assms obtain lss where
    t: "try_map (summary_of result) (map q_key question_numbers) = Inr lss"
    and c: "ls = concat lss"
    by (auto simp: print_summary_def split: sum.splits)
  show ?thesis
    unfolding c using t
  proof (rule try_map_all_mem)
    fix k xs
    assume "k \<in> set (map q_key question_numbers)" and "summary_of result k = Inr xs"
    then show "list_all (\<lambda>l. sm_pregunta l \<in> set (map q_key question_numbers)) xs"
      using summary_of_key [of result k xs] by (auto simp: list_all_iff)
  qed
qed

lemma example_of_num:
  "example_of doc q = Inr xs \<Longrightarrow> list_all (\<lambda>e. ex_pregunta e = q) xs"
  by (auto simp: example_of_def split: option.splits json.splits sum.splits if_splits)

lemma high_quality_examples_num:
  assumes "high_quality_examples eas = Inr exs"
  shows "list_all (\<lambda>e. ex_pregunta e \<in> set question_numbers) exs"
proof -
  from assms obtain xss where t: "try_map examples_of_doc eas = Inr xss"
    and c: "exs = concat xss"
    by (auto simp: high_quality_examples_def split: sum.splits)
  show ?thesis
    unfolding c using t
  proof (rule try_map_all)
    fix doc xs
    assume "examples_of_doc doc = Inr xs"
    then obtain yss where y: "try_map (example_of doc) question_numbers = Inr yss"
      and d: "xs = concat yss"
      by (auto simp: examples_of_doc_def split: sum.splits)
    show "list_all (\<lambda>e. ex_pregunta e \<in> set question_numbers) xs"
      unfolding d using y
    proof (rule try_map_all_mem)
      fix q ys
      assume "q \<in> set question_numbers" and "example_of doc q = Inr ys"
      then show "list_all (\<lambda>e. ex_pregunta e \<in> set question_numbers) ys"
        using example_of_num [of doc q ys] by (auto simp: list_all_iff)
    qed
  qed
qed

lemma extract_stores_reply:
  assumes "extract_answers_from_document cl st doc = Inr (Some a)"
  shows "\<exists>service ctx. cl = Some service \<and> build_context (extracted_answers st) = Inr ctx
    \<and> service (ExtractPrompt ctx (student_name doc) (full_text doc)) = Parsed (JObj (answers a))"
  using assms
  by (auto simp: extract_answers_from_document_def
      split: sum.splits option.splits reply.splits json.splits)

lemma generate_rubric_stores_reply:
  assumes "high_quality_examples (extracted_answers st) = Inr exs"
    and "service (rubric_prompt st exs) = Parsed v"
  shows "generate_rubric (Some service) st = Inr (st\<lparr>rubric := v\<rparr>)"
  using assms by (simp add: generate_rubric_def)

lemma length_PREGUNTAS: "length PREGUNTAS = 3"
  by (simp add: PREGUNTAS_def)

lemma q_keys: "map q_key question_numbers = [''pregunta_1'', ''pregunta_2'', ''pregunta_3'']"
  by (simp add: question_numbers_def q_key_1 q_key_2 q_key_3)

text \<open>
  C9, as the code has it. There are three questions and three keys. The pattern analysis
  a synthesis on a new analyzer leaves has exactly these keys, in order. The summary the
  extractor prints, the examples for the rubric, the rows of the table per student and
  the sections of the rubric text are all for one of the three questions. But the answers
  the extractor stores are the object the service returned, and the rubric is the value
  the service returned, with whatever keys they have.
\<close>

theorem question_keys:
  "length PREGUNTAS = 3
   \<and> map q_key question_numbers = [''pregunta_1'', ''pregunta_2'', ''pregunta_3'']
   \<and> (\<forall>st'. pattern_analysis st = [] \<and> synthesize_patterns st = Inr st' \<longrightarrow>
         map fst (pattern_analysis st') = [''pregunta_1'', ''pregunta_2'', ''pregunta_3''])
   \<and> (\<forall>result ls. print_summary result = Inr ls \<longrightarrow>
         list_all (\<lambda>l. sm_pregunta l \<in> set (map q_key question_numbers)) ls)
   \<and> (\<forall>exs. high_quality_examples (extracted_answers st) = Inr exs \<longrightarrow>
         list_all (\<lambda>e. ex_pregunta e \<in> set question_numbers) exs)
   \<and> (\<forall>out. export_reports xl st = Inr out \<longrightarrow>
         list_all (\<lambda>r. Pregunta_Num r \<in> set question_numbers) (analisis_por_estudiante out)
         \<and> list_all line_question_ok (pauta_correccion_txt out))
   \<and> (\<forall>cl doc a. extract_answers_from_document cl st doc = Inr (Some a) \<longrightarrow>
         (\<exists>service ctx. cl = Some service
            \<and> build_context (extracted_answers st) = Inr ctx
            \<and> service (ExtractPrompt ctx (student_name doc) (full_text doc))
                = Parsed (JObj (answers a))))
   \<and> (\<forall>service exs v. high_quality_examples (extracted_answers st) = Inr exs
           \<and> service (rubric_prompt st exs) = Parsed v \<longrightarrow>
         generate_rubric (Some service) st = Inr (st\<lparr>rubric := v\<rparr>))"
proof (intro conjI allI impI)
  show "length PREGUNTAS = 3"
    by (rule length_PREGUNTAS)
  show "map q_key question_numbers = [''pregunta_1'', ''pregunta_2'', ''pregunta_3'']"
    by (rule q_keys)
next
  fix st'
  assume "pattern_analysis st = [] \<and> synthesize_patterns st = Inr st'"
  then show "map fst (pattern_analysis st') = [''pregunta_1'', ''pregunta_2'', ''pregunta_3'']"
    using synthesize_patterns_fresh [of st st'] by (simp add: q_keys)
next
  fix result ls
  assume "print_summary result = Inr ls"
  then show "list_all (\<lambda>l. sm_pregunta l \<in> set (map q_key question_numbers)) ls"
    by (rule print_summary_keys)
next
  fix exs
  assume "high_quality_examples (extracted_answers st) = Inr exs"
  then show "list_all (\<lambda>e. ex_pregunta e \<in> set question_numbers) exs"
    by (rule high_quality_examples_num)
next
  fix out
  assume a: "export_reports xl st = Inr out"
  then obtain rows ls where r: "student_details (extracted_answers st) = Inr rows"
    and t: "rubric_text (rubric st) = Inr ls"
    and o: "analisis_por_estudiante out = rows" "pauta_correccion_txt out = ls"
    by (auto simp: export_reports_def Let_def split: sum.splits option.splits)
  show "list_all (\<lambda>r. Pregunta_Num r \<in> set question_numbers) (analisis_por_estudiante out)"
    using student_details_num [OF r] o by simp
  show "list_all line_question_ok (pauta_correccion_txt out)"
    using rubric_text_lines [OF t] o by simp
next
  fix cl doc a
  assume "extract_answers_from_document cl st doc = Inr (Some a)"
  then show "\<exists>service ctx. cl = Some service
            \<and> build_context (extracted_answers st) = Inr ctx
            \<and> service (ExtractPrompt ctx (student_name doc) (full_text doc))
                = Parsed (JObj (answers a))"
    by (rule extract_stores_reply)
next
  fix service exs v
  assume "high_quality_examples (extracted_answers st) = Inr exs
           \<and> service (rubric_prompt st exs) = Parsed v"
  then show "generate_rubric (Some service) st = Inr (st\<lparr>rubric := v\<rparr>)"
    using generate_rubric_stores_reply [of st exs service v] by simp
qed

text \<open>
  C9 as stated fails. When the response to a document has an entry for a fourth question
  and none for the three, that is what the extractor stores as the answers of the
  document, and the context of the next request has a line for it.
\<close>

theorem question_keys_counterexample:
  "extract_answers_from_document (Some fourth_service) (init []) (one_document ! 0) =
     Inr (Some \<lparr>ea_student_name = ''ana'', answers = [(''pregunta_4'', JObj [])]\<rparr>)
   \<and> build_context [\<lparr>ea_student_name = ''ana'', answers = [(''pregunta_4'', JObj [])]\<rparr>] =
       Inr (context_header @ ''Documento: ana\<newline>''
            @ ''  Pregunta pregunta_4: '' @ placeholder @ ''\<newline>\<newline>'')"
proof (intro conjI)
  have "print_summary [(''pregunta_4'', JObj [])] = Inr []"
    by (simp add: print_summary_def summary_of_def question_numbers_def q_key_1 q_key_2 q_key_3)
  then show "extract_answers_from_document (Some fourth_service) (init []) (one_document ! 0) =
     Inr (Some \<lparr>ea_student_name = ''ana'', answers = [(''pregunta_4'', JObj [])]\<rparr>)"
    by (simp add: extract_answers_from_document_def init_def build_context_def
        fourth_service_def one_document_def)
  show "build_context [\<lparr>ea_student_name = ''ana'', answers = [(''pregunta_4'', JObj [])]\<rparr>] =
       Inr (context_header @ ''Documento: ana\<newline>''
            @ ''  Pregunta pregunta_4: '' @ placeholder @ ''\<newline>\<newline>'')"
    by (simp add: build_context_def last_three_def render_prev_def render_answer_def)
qed

theorem question_keys_witness:
  "\<exists>st'. synthesize_patterns ((init [])\<lparr>extracted_answers := demo_answers\<rparr>) = Inr st'
     \<and> map fst (pattern_analysis st') = [''pregunta_1'', ''pregunta_2'', ''pregunta_3'']"
proof -
  let ?st = "(init [])\<lparr>extracted_answers := demo_answers\<rparr>"
  obtain st' where st': "synthesize_patterns ?st = Inr st'"
    by (simp add: synthesize_patterns_eq demo_syn)
  have f: "pattern_analysis ?st = []"
    by (simp add: init_def)
  have k: "\<forall>st'. pattern_analysis ?st = [] \<and> synthesize_patterns ?st = Inr st' \<longrightarrow>
      map fst (pattern_analysis st') = [''pregunta_1'', ''pregunta_2'', ''pregunta_3'']"
    using question_keys [of ?st plain_writer] by (elim conjE)
  have "map fst (pattern_analysis st') = [''pregunta_1'', ''pregunta_2'', ''pregunta_3'']"
    using k [rule_format, of st'] f st' by simp
  then show ?thesis
    using st' by (intro exI [of _ st']) simp
qed

section \<open>Malformed responses elsewhere in the run\<close>

text \<open>
  An answer that has neither key points nor concepts gets a row with no concepts and 0
  key points, and a line of the summary with 0 key points.
\<close>

lemma missing_key_points_row:
  assumes "map_of (answers doc) (q_key q) = Some (JObj a)"
    and "map_of a ''key_points'' = None" and "map_of a ''conceptos_mencionados'' = None"
  shows "student_row_of doc q =
      Inr [\<lparr>Estudiante = ea_student_name doc, Pregunta_Num = q, Conceptos_Mencionados = [],
            Num_Puntos_Clave = 0,
            Longitud = dict_get a ''longitud_caracteres'' (JInt 0),
            Calidad = dict_get a ''calidad_estimada'' (JStr ''N/A'')\<rparr>]"
  using assms by (simp add: student_row_of_def dict_get_def join_values_def)

lemma missing_key_points_summary:
  assumes "map_of result k = Some (JObj a)"
    and "map_of a ''key_points'' = None" and "map_of a ''conceptos_mencionados'' = None"
  shows "summary_of result k =
      Inr [\<lparr>sm_pregunta = k, sm_conceptos = ''N/A'', sm_puntos_clave = 0,
            sm_calidad = dict_get a ''calidad_estimada'' (JStr ''N/A'')\<rparr>]"
  using assms by (simp add: summary_of_def dict_get_def)

text \<open>
  Two more places where a value of the wrong type raises outside any handler: a key point
  that is no string, when the context of the next request is built, and a quality label
  that is a list, when the synthesizer counts it.
\<close>

lemma context_raises_on_number:
  "build_context [\<lparr>ea_student_name = ''ana'',
                   answers = [(''pregunta_1'', JObj [(''key_points'', JList [JInt 1])])]\<rparr>] =
     Inl TypeError"
  by (simp add: build_context_def last_three_def render_prev_def render_answer_def
      join_values_def)

lemma synthesis_raises_on_list_label:
  "synth_question [\<lparr>ea_student_name = ''ana'',
                    answers = [(''pregunta_1'', JObj [(''calidad_estimada'', JList [])])]\<rparr>] 1 =
     Inl TypeError"
  by (simp add: synth_question_eq q_key_1 labels_of_def answer_of_def dict_get_def)

end
